theory Spec2Isabelle
  imports Complex_Main
begin

section \<open>Conventions of the embedding\<close>

text \<open>
  The path optimizer is C++ over \<^verbatim>\<open>double\<close>, \<^verbatim>\<open>int\<close>, \<^verbatim>\<open>size_t\<close>, \<^verbatim>\<open>std::vector\<close> and
  Eigen's dense matrices.  A \<^verbatim>\<open>double\<close> is embedded as a \<^typ>\<open>real\<close>: every arithmetic
  operation is the exact one that the IEEE operation rounds, so the theorems below speak
  about finite values in exact arithmetic and say nothing about rounding, infinities or
  NaN.  A \<^verbatim>\<open>std::vector<double>\<close> is a \<^typ>\<open>real list\<close>, an \<^verbatim>\<open>int\<close> is an \<^typ>\<open>int\<close>, and a
  \<^verbatim>\<open>size_t\<close> is a \<^typ>\<open>nat\<close> below \<open>2 ^ 64\<close> whose subtraction and multiplication wrap
  around explicitly.
\<close>

section \<open>Parameter records (path\_optimizer\_types.hpp)\<close>

text \<open>
  Each struct is a record; its default member initialisers are collected in a constant
  named after the struct (the value of \<^verbatim>\<open>T{}\<close>).
\<close>

record MPTParam =
  num_curvature_sampling_points :: int
  delta_arc_length_for_mpt_points :: real
  num_points :: int
  max_optimization_time_ms :: real
  l_inf_weight :: real
  lat_error_weight :: real
  weight_lat_error :: real
  yaw_error_weight :: real
  yaw_error_rate_weight :: real
  steer_input_weight :: real
  weight_steer_input :: real
  steer_rate_weight :: real
  terminal_lat_error_weight :: real
  terminal_yaw_error_weight :: real
  goal_lat_error_weight :: real
  goal_yaw_error_weight :: real
  optimization_center_offset :: real
  max_steer_rad :: real
  max_steer_rate_rad_per_s :: real
  enable_avoidance :: bool
  avoidance_precision :: real
  soft_collision_free_weight :: real
  enable_terminal_constraint :: bool
  terminal_lat_error_threshold :: real
  terminal_yaw_error_threshold :: real

definition MPTParam_init :: MPTParam where
  "MPTParam_init = \<lparr>
     num_curvature_sampling_points = 5,
     delta_arc_length_for_mpt_points = 1.0,
     num_points = 100,
     max_optimization_time_ms = 50.0,
     l_inf_weight = 1.0,
     lat_error_weight = 1.0,
     weight_lat_error = 1.0,
     yaw_error_weight = 0.0,
     yaw_error_rate_weight = 0.0,
     steer_input_weight = 1.0,
     weight_steer_input = 0.1,
     steer_rate_weight = 1.0,
     terminal_lat_error_weight = 100.0,
     terminal_yaw_error_weight = 0.0,
     goal_lat_error_weight = 1000.0,
     goal_yaw_error_weight = 0.0,
     optimization_center_offset = 0.0,
     max_steer_rad = 0.7,
     max_steer_rate_rad_per_s = 0.5,
     enable_avoidance = True,
     avoidance_precision = 0.5,
     soft_collision_free_weight = 1000.0,
     enable_terminal_constraint = True,
     terminal_lat_error_threshold = 0.3,
     terminal_yaw_error_threshold = 0.1 \<rparr>"

record TrajectoryParam =
  output_delta_arc_length :: real
  output_backward_traj_length :: real
  num_sampling_points :: int

definition TrajectoryParam_init :: TrajectoryParam where
  "TrajectoryParam_init = \<lparr>
     output_delta_arc_length = 0.5,
     output_backward_traj_length = 2.0,
     num_sampling_points = 100 \<rparr>"

record EgoNearestParam =
  dist_threshold :: real
  yaw_threshold :: real

definition EgoNearestParam_init :: EgoNearestParam where
  "EgoNearestParam_init = \<lparr> dist_threshold = 3.0, yaw_threshold = 1.046 \<rparr>"

record ReplanCheckerParam =
  max_path_shape_change_dist :: real
  max_ego_moving_dist :: real
  max_delta_time_sec :: real

definition ReplanCheckerParam_init :: ReplanCheckerParam where
  "ReplanCheckerParam_init = \<lparr>
     max_path_shape_change_dist = 0.5,
     max_ego_moving_dist = 5.0,
     max_delta_time_sec = 2.0 \<rparr>"

record PathOptimizerParam =
  trajectory :: TrajectoryParam
  ego_nearest :: EgoNearestParam
  mpt :: MPTParam
  replan_checker :: ReplanCheckerParam
  enable_outside_drivable_area_stop :: bool
  vehicle_stop_margin_outside_drivable_area :: real
  enable_skip_optimization :: bool
  enable_reset_prev_optimization :: bool

definition PathOptimizerParam_init :: PathOptimizerParam where
  "PathOptimizerParam_init = \<lparr>
     trajectory = TrajectoryParam_init,
     ego_nearest = EgoNearestParam_init,
     mpt = MPTParam_init,
     replan_checker = ReplanCheckerParam_init,
     enable_outside_drivable_area_stop = True,
     vehicle_stop_margin_outside_drivable_area = 0.5,
     enable_skip_optimization = False,
     enable_reset_prev_optimization = True \<rparr>"

section \<open>Failures\<close>

text \<open>
  The C++ has no exceptions of its own, but it calls library operations with
  preconditions: \<^verbatim>\<open>std::clamp(v, lo, hi)\<close> is undefined when \<open>hi < lo\<close>, Eigen refuses a
  negative dimension, a block outside the matrix and a product or sum of mismatched sizes
  (\<^verbatim>\<open>eigen_assert\<close>), and \<^verbatim>\<open>operator[]\<close> of a vector is undefined past its end.  Each
  violated precondition is a value of \<open>error\<close>, and an operation that can violate one
  returns \<open>error + 'a\<close>.
\<close>

datatype error = ClampPrecondition | NegativeSize | IndexOutOfRange | SizeMismatch

definition bindE :: "error + 'a \<Rightarrow> ('a \<Rightarrow> error + 'b) \<Rightarrow> error + 'b" where
  "bindE r f = (case r of Inl e \<Rightarrow> Inl e | Inr v \<Rightarrow> f v)"

section \<open>Unsigned sizes\<close>

text \<open>
  \<^verbatim>\<open>size_t\<close> is 64 bits wide.  \<open>size_t_of_int\<close> is the conversion from \<^verbatim>\<open>int\<close>,
  \<open>Index_of_size_t\<close> the conversion to Eigen's signed \<^verbatim>\<open>Index\<close> (\<^verbatim>\<open>std::ptrdiff_t\<close>).
\<close>

definition SIZE_WIDTH :: nat where
  "SIZE_WIDTH = 64"

definition size_t_of_int :: "int \<Rightarrow> nat" where
  "size_t_of_int z = nat (z mod 2 ^ SIZE_WIDTH)"

definition size_t_of_length :: "'a list \<Rightarrow> nat" where
  "size_t_of_length xs = length xs mod 2 ^ SIZE_WIDTH"

definition size_t_sub :: "nat \<Rightarrow> nat \<Rightarrow> nat" where
  "size_t_sub a b = (a + 2 ^ SIZE_WIDTH - b mod 2 ^ SIZE_WIDTH) mod 2 ^ SIZE_WIDTH"

definition size_t_mul :: "nat \<Rightarrow> nat \<Rightarrow> nat" where
  "size_t_mul a b = (a * b) mod 2 ^ SIZE_WIDTH"

definition Index_of_size_t :: "nat \<Rightarrow> int" where
  "Index_of_size_t n = (if n < 2 ^ (SIZE_WIDTH - 1) then int n else int n - 2 ^ SIZE_WIDTH)"

section \<open>Dense matrices (Eigen::MatrixXd, Eigen::VectorXd)\<close>

text \<open>
  A dynamic matrix is its two dimensions and its coefficients, read by row and column;
  a coefficient outside the dimensions is not storage and is kept at 0.  A vector is a
  matrix of one column.
\<close>

record MatrixXd =
  rows :: nat
  cols :: nat
  coeff :: "nat \<Rightarrow> nat \<Rightarrow> real"

definition MatrixXd_Zero :: "int \<Rightarrow> int \<Rightarrow> error + MatrixXd" where
  "MatrixXd_Zero r c =
     (if 0 \<le> r \<and> 0 \<le> c
      then Inr \<lparr> rows = nat r, cols = nat c, coeff = (\<lambda>i j. 0) \<rparr>
      else Inl NegativeSize)"

definition VectorXd_Zero :: "int \<Rightarrow> error + MatrixXd" where
  "VectorXd_Zero n = MatrixXd_Zero n 1"

text \<open>\<^verbatim>\<open>M.resize(r, c); M << v0, v1, ...;\<close> fills the coefficients row by row.\<close>

definition comma_init :: "nat \<Rightarrow> nat \<Rightarrow> real list \<Rightarrow> MatrixXd" where
  "comma_init r c vs =
     \<lparr> rows = r, cols = c, coeff = (\<lambda>i j. if i < r \<and> j < c then vs ! (i * c + j) else 0) \<rparr>"

text \<open>\<^verbatim>\<open>M.block(i, j, p, q)\<close> read: the \<open>p \<times> q\<close> block whose top left corner is \<open>(i, j)\<close>.\<close>

definition block :: "MatrixXd \<Rightarrow> nat \<Rightarrow> nat \<Rightarrow> nat \<Rightarrow> nat \<Rightarrow> error + MatrixXd" where
  "block M i j p q =
     (if i + p \<le> rows M \<and> j + q \<le> cols M
      then Inr \<lparr> rows = p, cols = q,
                 coeff = (\<lambda>a b. if a < p \<and> b < q then coeff M (i + a) (j + b) else 0) \<rparr>
      else Inl IndexOutOfRange)"

text \<open>\<^verbatim>\<open>M.block(i, j, p, q) = V\<close>: the block is overwritten by \<open>V\<close>, which has its size.\<close>

definition set_block ::
  "MatrixXd \<Rightarrow> nat \<Rightarrow> nat \<Rightarrow> nat \<Rightarrow> nat \<Rightarrow> MatrixXd \<Rightarrow> error + MatrixXd" where
  "set_block M i j p q V =
     (if \<not> (i + p \<le> rows M \<and> j + q \<le> cols M) then Inl IndexOutOfRange
      else if \<not> (rows V = p \<and> cols V = q) then Inl SizeMismatch
      else Inr (M \<lparr> coeff := (\<lambda>a b. if i \<le> a \<and> a < i + p \<and> j \<le> b \<and> b < j + q
                                      then coeff V (a - i) (b - j) else coeff M a b) \<rparr>))"

text \<open>\<^verbatim>\<open>v.segment(i, n)\<close> of a vector is its block \<open>(i, 0, n, 1)\<close>.\<close>

definition segment :: "MatrixXd \<Rightarrow> nat \<Rightarrow> nat \<Rightarrow> error + MatrixXd" where
  "segment v i n = block v i 0 n 1"

definition set_segment :: "MatrixXd \<Rightarrow> nat \<Rightarrow> nat \<Rightarrow> MatrixXd \<Rightarrow> error + MatrixXd" where
  "set_segment v i n V = set_block v i 0 n 1 V"

definition mat_mul :: "MatrixXd \<Rightarrow> MatrixXd \<Rightarrow> error + MatrixXd" where
  "mat_mul P Q =
     (if cols P = rows Q
      then Inr \<lparr> rows = rows P, cols = cols Q,
                 coeff = (\<lambda>i j. if i < rows P \<and> j < cols Q
                                 then (\<Sum>t<cols P. coeff P i t * coeff Q t j) else 0) \<rparr>
      else Inl SizeMismatch)"

definition mat_add :: "MatrixXd \<Rightarrow> MatrixXd \<Rightarrow> error + MatrixXd" where
  "mat_add P Q =
     (if rows P = rows Q \<and> cols P = cols Q
      then Inr \<lparr> rows = rows P, cols = cols P,
                 coeff = (\<lambda>i j. if i < rows P \<and> j < cols P
                                 then coeff P i j + coeff Q i j else 0) \<rparr>
      else Inl SizeMismatch)"

text \<open>
  The mathematical notation \<open>[[a, b], [c, d]]\<close> of a matrix by its rows, used to state
  what an operation returns.
\<close>

definition of_rows :: "real list list \<Rightarrow> MatrixXd" where
  "of_rows rs =
     \<lparr> rows = length rs, cols = (case rs of [] \<Rightarrow> 0 | r # _ \<Rightarrow> length r),
       coeff = (\<lambda>i j. if i < length rs \<and> j < (case rs of [] \<Rightarrow> 0 | r # _ \<Rightarrow> length r)
                       then rs ! i ! j else 0) \<rparr>"

section \<open>The vehicle model (vehicle\_model.hpp)\<close>

record VehicleModel =
  wheelbase :: real
  steer_limit :: real

definition getDimX :: "VehicleModel \<Rightarrow> int" where
  "getDimX vm = 2"

definition getDimU :: "VehicleModel \<Rightarrow> int" where
  "getDimU vm = 1"

text \<open>\<^verbatim>\<open>std::clamp(v, lo, hi)\<close>: \<open>v\<close> brought into \<open>[lo, hi]\<close>, undefined when \<open>hi < lo\<close>.\<close>

definition std_clamp :: "real \<Rightarrow> real \<Rightarrow> real \<Rightarrow> error + real" where
  "std_clamp v lo hi =
     (if hi < lo then Inl ClampPrecondition
      else Inr (if v < lo then lo else if hi < v then hi else v))"

text \<open>
  \<^verbatim>\<open>calculateStateEquationMatrix(Ad, Bd, Wd, curvature, ds)\<close> overwrites its three output
  parameters; the model returns them.
\<close>

definition calculateStateEquationMatrix ::
  "VehicleModel \<Rightarrow> real \<Rightarrow> real \<Rightarrow> error + (MatrixXd \<times> MatrixXd \<times> MatrixXd)" where
  "calculateStateEquationMatrix vm curvature ds =
     (let delta_r = arctan (wheelbase vm * curvature) in
      bindE (std_clamp delta_r (- steer_limit vm) (steer_limit vm)) (\<lambda>cropped_delta_r.
        let Ad = comma_init 2 2 [1.0, ds, 0.0, 1.0];
            cos_delta = cos delta_r;
            Bd = comma_init 2 1 [0.0, ds / wheelbase vm / (cos_delta * cos_delta)];
            tan_cropped = tan cropped_delta_r;
            cos_cropped = cos cropped_delta_r;
            Wd = comma_init 2 1
                   [0.0,
                    - ds * curvature + ds / wheelbase vm *
                      (tan_cropped - cropped_delta_r / (cos_cropped * cos_cropped))]
        in Inr (Ad, Bd, Wd)))"

section \<open>Reference points (path\_optimizer\_types.hpp)\<close>

record Point =
  px :: real
  py :: real
  pz :: real

record Quaternion =
  qx :: real
  qy :: real
  qz :: real
  qw :: real

record Pose =
  position :: Point
  orientation :: Quaternion

record Bounds =
  lower_bound :: real
  upper_bound :: real

record KinematicState =
  lat :: real
  yaw :: real

record ReferencePoint =
  pose :: Pose
  longitudinal_velocity_mps :: real
  curvature :: real
  delta_arc_length :: real
  alpha :: real
  normalized_avoidance_cost :: real
  bounds :: Bounds
  fixed_kinematic_state :: "KinematicState option"
  optimized_kinematic_state :: KinematicState
  optimized_input :: real

definition Point_init :: Point where
  "Point_init = \<lparr> px = 0.0, py = 0.0, pz = 0.0 \<rparr>"

definition Quaternion_init :: Quaternion where
  "Quaternion_init = \<lparr> qx = 0.0, qy = 0.0, qz = 0.0, qw = 1.0 \<rparr>"

definition Pose_init :: Pose where
  "Pose_init = \<lparr> position = Point_init, orientation = Quaternion_init \<rparr>"

definition Bounds_init :: Bounds where
  "Bounds_init = \<lparr> lower_bound = 0.0, upper_bound = 0.0 \<rparr>"

definition KinematicState_init :: KinematicState where
  "KinematicState_init = \<lparr> lat = 0.0, yaw = 0.0 \<rparr>"

definition ReferencePoint_init :: ReferencePoint where
  "ReferencePoint_init = \<lparr>
     pose = Pose_init,
     longitudinal_velocity_mps = 0.0,
     curvature = 0.0,
     delta_arc_length = 0.0,
     alpha = 0.0,
     normalized_avoidance_cost = 0.0,
     bounds = Bounds_init,
     fixed_kinematic_state = None,
     optimized_kinematic_state = KinematicState_init,
     optimized_input = 0.0 \<rparr>"

text \<open>\<^verbatim>\<open>v[k]\<close> of a \<^verbatim>\<open>std::vector\<close>, undefined past the end.\<close>

definition vector_at :: "'a list \<Rightarrow> nat \<Rightarrow> error + 'a" where
  "vector_at v k = (if k < length v then Inr (v ! k) else Inl IndexOutOfRange)"

section \<open>The state equation generator (state\_equation\_generator.hpp)\<close>

text \<open>
  The generator built by its two-argument constructor owns a \<open>VehicleModel\<close>, which the
  operations below take as their first argument.  (A default-constructed generator owns
  none, and none of its operations may be called.)
\<close>

record Matrix =
  mat_A :: MatrixXd
  mat_B :: MatrixXd
  mat_W :: MatrixXd

text \<open>
  The inner loop \<^verbatim>\<open>for (size_t k = 0; k < i - 1; ++k)\<close> of \<^verbatim>\<open>calcMatrix\<close>:
  \<^verbatim>\<open>B.block(i * D_x, k * D_u, D_x, D_u) = Ad * B.block((i - 1) * D_x, k * D_u, D_x, D_u)\<close>.
\<close>

function calcMatrix_B_loop ::
  "MatrixXd \<Rightarrow> nat \<Rightarrow> nat \<Rightarrow> nat \<Rightarrow> nat \<Rightarrow> MatrixXd \<Rightarrow> error + MatrixXd" where
  "calcMatrix_B_loop Ad D_x D_u i k B =
     (if k < size_t_sub i 1
      then (case bindE (block B (size_t_mul (size_t_sub i 1) D_x) (size_t_mul k D_u) D_x D_u)
                   (\<lambda>prev. bindE (mat_mul Ad prev)
                   (\<lambda>prod. set_block B (size_t_mul i D_x) (size_t_mul k D_u) D_x D_u prod))
            of Inl e \<Rightarrow> Inl e
             | Inr B' \<Rightarrow> calcMatrix_B_loop Ad D_x D_u i (Suc k) B')
      else Inr B)"
  by pat_completeness auto
termination
  by (relation "measure (\<lambda>(Ad, D_x, D_u, i, k, B). size_t_sub i 1 - k)") auto

declare calcMatrix_B_loop.simps [simp del]

text \<open>
  One iteration of the outer loop: the body of \<^verbatim>\<open>for (size_t i = 1; i < N_ref; ++i)\<close>.
  The curvature handed to the vehicle model is the literal \<open>0.0\<close>.
\<close>

definition calcMatrix_body ::
  "VehicleModel \<Rightarrow> ReferencePoint list \<Rightarrow> nat \<Rightarrow> nat \<Rightarrow> nat \<Rightarrow> Matrix \<Rightarrow> error + Matrix" where
  "calcMatrix_body vm ref_points D_x D_u i m =
     bindE (vector_at ref_points (size_t_sub i 1)) (\<lambda>p.
     bindE (calculateStateEquationMatrix vm 0.0 (delta_arc_length p)) (\<lambda>(Ad, Bd, Wd).
     bindE (segment (mat_W m) (size_t_mul (size_t_sub i 1) D_x) D_x) (\<lambda>Wprev.
     bindE (mat_mul Ad Wprev) (\<lambda>AW.
     bindE (mat_add AW Wd) (\<lambda>Wi.
     bindE (set_segment (mat_W m) (size_t_mul i D_x) D_x Wi) (\<lambda>W'.
     bindE (calcMatrix_B_loop Ad D_x D_u i 0 (mat_B m)) (\<lambda>B1.
     bindE (set_block B1 (size_t_mul i D_x) (size_t_mul (size_t_sub i 1) D_u) D_x D_u Bd) (\<lambda>B'.
     bindE (set_block (mat_A m) (size_t_mul i D_x) (size_t_mul (size_t_sub i 1) D_x) D_x D_x Ad)
       (\<lambda>A'.
     Inr \<lparr> mat_A = A', mat_B = B', mat_W = W' \<rparr>)))))))))"

text \<open>The outer loop; \<^verbatim>\<open>++i\<close> cannot wrap, since \<open>i < N_ref\<close>.\<close>

function calcMatrix_loop ::
  "VehicleModel \<Rightarrow> ReferencePoint list \<Rightarrow> nat \<Rightarrow> nat \<Rightarrow> nat \<Rightarrow> nat \<Rightarrow> Matrix
   \<Rightarrow> error + Matrix" where
  "calcMatrix_loop vm ref_points D_x D_u N_ref i m =
     (if i < N_ref
      then (case calcMatrix_body vm ref_points D_x D_u i m of
              Inl e \<Rightarrow> Inl e
            | Inr m' \<Rightarrow> calcMatrix_loop vm ref_points D_x D_u N_ref (Suc i) m')
      else Inr m)"
  by pat_completeness auto
termination
  by (relation "measure (\<lambda>(vm, ref_points, D_x, D_u, N_ref, i, m). N_ref - i)") auto

declare calcMatrix_loop.simps [simp del]

text \<open>The size computations at the head of \<^verbatim>\<open>calcMatrix\<close>.\<close>

definition calcMatrix_N_x :: "VehicleModel \<Rightarrow> ReferencePoint list \<Rightarrow> nat" where
  "calcMatrix_N_x vm ref_points =
     size_t_mul (size_t_of_length ref_points) (size_t_of_int (getDimX vm))"

definition calcMatrix_N_u :: "VehicleModel \<Rightarrow> ReferencePoint list \<Rightarrow> nat" where
  "calcMatrix_N_u vm ref_points =
     size_t_mul (size_t_sub (size_t_of_length ref_points) 1) (size_t_of_int (getDimU vm))"

definition calcMatrix :: "VehicleModel \<Rightarrow> ReferencePoint list \<Rightarrow> error + Matrix" where
  "calcMatrix vm ref_points =
     (let D_x = size_t_of_int (getDimX vm);
          D_u = size_t_of_int (getDimU vm);
          N_ref = size_t_of_length ref_points;
          N_x = calcMatrix_N_x vm ref_points;
          N_u = calcMatrix_N_u vm ref_points
      in bindE (MatrixXd_Zero (Index_of_size_t N_x) (Index_of_size_t N_x)) (\<lambda>A.
         bindE (MatrixXd_Zero (Index_of_size_t N_x) (Index_of_size_t N_u)) (\<lambda>B.
         bindE (VectorXd_Zero (Index_of_size_t N_x)) (\<lambda>W.
         bindE (VectorXd_Zero (Index_of_size_t D_x)) (\<lambda>Z.
         bindE (set_segment W 0 D_x Z) (\<lambda>W0.
         calcMatrix_loop vm ref_points D_x D_u N_ref 1
           \<lparr> mat_A = A, mat_B = B, mat_W = W0 \<rparr>))))))"

definition predict :: "Matrix \<Rightarrow> MatrixXd \<Rightarrow> error + MatrixXd" where
  "predict m U = bindE (mat_mul (mat_B m) U) (\<lambda>BU. mat_add BU (mat_W m))"

text \<open>
  The recurrence of the specification, simulated one step at a time: \<open>X[0] = 0\<close> and
  \<open>X[i] = A\<^sub>d X[i - 1] + B\<^sub>d u\<^sub>i\<^sub>-\<^sub>1 + W\<^sub>d\<close>, the three matrices being those of the vehicle
  model for reference point \<open>i - 1\<close> at curvature 0.
\<close>

fun simulate :: "VehicleModel \<Rightarrow> ReferencePoint list \<Rightarrow> MatrixXd \<Rightarrow> nat \<Rightarrow> error + MatrixXd" where
  "simulate vm ref_points U 0 = VectorXd_Zero 2"
| "simulate vm ref_points U (Suc i) =
     bindE (simulate vm ref_points U i) (\<lambda>X.
     bindE (calculateStateEquationMatrix vm 0 (delta_arc_length (ref_points ! i)))
       (\<lambda>(Ad, Bd, Wd).
     bindE (segment U i 1) (\<lambda>u.
     bindE (mat_mul Ad X) (\<lambda>AX.
     bindE (mat_mul Bd u) (\<lambda>Bu.
     bindE (mat_add AX Bu) (\<lambda>AXBu.
     mat_add AXBu Wd))))))"

text \<open>
  The block recurrences of the specification in closed form, coefficient by coefficient:
  \<open>B_rec T i a k\<close> is row \<open>a\<close> of the block \<open>B[i, k]\<close> and \<open>W_rec T i a\<close> is row \<open>a\<close> of
  the block \<open>W[i]\<close>, where \<open>T j\<close> are the three one-step matrices of reference point
  \<open>j\<close>: \<open>W[0] = 0\<close>, \<open>W[i + 1] = A\<^sub>d W[i] + W\<^sub>d\<close>, \<open>B[i + 1, k] = A\<^sub>d B[i, k]\<close> for \<open>k < i\<close>,
  \<open>B[i + 1, i] = B\<^sub>d\<close>, and every other block of \<open>B\<close> is zero.
\<close>

fun B_rec :: "(nat \<Rightarrow> MatrixXd \<times> MatrixXd \<times> MatrixXd) \<Rightarrow> nat \<Rightarrow> nat \<Rightarrow> nat \<Rightarrow> real" where
  "B_rec T 0 a k = 0"
| "B_rec T (Suc i) a k =
     (case T i of (Ad, Bd, Wd) \<Rightarrow>
        if k < i then coeff Ad a 0 * B_rec T i 0 k + coeff Ad a 1 * B_rec T i 1 k
        else if k = i then coeff Bd a 0
        else 0)"

fun W_rec :: "(nat \<Rightarrow> MatrixXd \<times> MatrixXd \<times> MatrixXd) \<Rightarrow> nat \<Rightarrow> nat \<Rightarrow> real" where
  "W_rec T 0 a = 0"
| "W_rec T (Suc i) a =
     (case T i of (Ad, Bd, Wd) \<Rightarrow>
        coeff Ad a 0 * W_rec T i 0 + coeff Ad a 1 * W_rec T i 1 + coeff Wd a 0)"

text \<open>The one-step matrices that \<^verbatim>\<open>calcMatrix\<close> asks of the vehicle model for point \<open>j\<close>.\<close>

definition step_matrices ::
  "VehicleModel \<Rightarrow> ReferencePoint list \<Rightarrow> nat \<Rightarrow> MatrixXd \<times> MatrixXd \<times> MatrixXd" where
  "step_matrices vm ref_points j =
     (case calculateStateEquationMatrix vm 0 (delta_arc_length (ref_points ! j)) of
        Inr t \<Rightarrow> t
      | Inl e \<Rightarrow> (of_rows [], of_rows [], of_rows []))"

text \<open>
  The loop invariant of \<^verbatim>\<open>calcMatrix\<close> before iteration \<open>i\<close>, for \<open>N\<close> reference
  points: the three matrices have their final sizes, the block rows below \<open>i\<close> hold the
  recurrences, and every later block row is still zero.
\<close>

definition calcMatrix_inv ::
  "(nat \<Rightarrow> MatrixXd \<times> MatrixXd \<times> MatrixXd) \<Rightarrow> nat \<Rightarrow> nat \<Rightarrow> Matrix \<Rightarrow> bool" where
  "calcMatrix_inv T N i m \<longleftrightarrow>
     rows (mat_A m) = 2 * N \<and> cols (mat_A m) = 2 * N \<and>
     rows (mat_B m) = 2 * N \<and> cols (mat_B m) = N - 1 \<and>
     rows (mat_W m) = 2 * N \<and> cols (mat_W m) = 1 \<and>
     (\<forall>j a c. a < 2 \<longrightarrow>
        coeff (mat_B m) (2 * j + a) c = (if j < i then B_rec T j a c else 0)) \<and>
     (\<forall>j a c. a < 2 \<longrightarrow>
        coeff (mat_W m) (2 * j + a) c = (if j < i \<and> c = 0 then W_rec T j a else 0))"

section \<open>The cubic spline (cubic\_spline.hpp)\<close>

text \<open>
  The object holds six vectors: the samples \<^verbatim>\<open>x_\<close>, \<^verbatim>\<open>y_\<close> and the coefficients \<^verbatim>\<open>a_\<close>,
  \<^verbatim>\<open>b_\<close>, \<^verbatim>\<open>c_\<close>, \<^verbatim>\<open>d_\<close> (an Isabelle name cannot end in an underscore, so the fields
  are \<open>m_x\<close>, \<dots>, \<open>m_d\<close>).  A default-constructed spline holds six empty vectors.  The
  member functions are embedded by state passing: \<^verbatim>\<open>calcSplineCoefficients\<close> takes the
  object and returns it updated.
\<close>

record CubicSpline =
  m_x :: "real list"
  m_y :: "real list"
  m_a :: "real list"
  m_b :: "real list"
  m_c :: "real list"
  m_d :: "real list"

definition CubicSpline_init :: CubicSpline where
  "CubicSpline_init = \<lparr> m_x = [], m_y = [], m_a = [], m_b = [], m_c = [], m_d = [] \<rparr>"

text \<open>
  \<^verbatim>\<open>v.resize(n)\<close> keeps the first \<open>n\<close> elements and appends zeros up to size \<open>n\<close>;
  \<^verbatim>\<open>std::vector<double> v(n)\<close> is \<open>n\<close> zeros.
\<close>

definition resize :: "nat \<Rightarrow> real list \<Rightarrow> real list" where
  "resize n v = take n v @ replicate (n - length v) 0"

text \<open>
  The forward sweep of the Thomas algorithm,
  \<^verbatim>\<open>for (size_t i = 1; i < n - 1; ++i)\<close>, on the vectors \<open>l\<close>, \<open>mu\<close> and \<open>z\<close>.
\<close>

function thomas_forward ::
  "real list \<Rightarrow> real list \<Rightarrow> real list \<Rightarrow> nat \<Rightarrow> nat
   \<Rightarrow> real list \<times> real list \<times> real list \<Rightarrow> real list \<times> real list \<times> real list" where
  "thomas_forward x h alpha' n i (l, mu, z) =
     (if i < n - 1
      then let l' = l[i := 2.0 * (x ! (i + 1) - x ! (i - 1)) - h ! (i - 1) * mu ! (i - 1)];
               mu' = mu[i := h ! i / l' ! i];
               z' = z[i := (alpha' ! i - h ! (i - 1) * z ! (i - 1)) / l' ! i]
           in thomas_forward x h alpha' n (Suc i) (l', mu', z')
      else (l, mu, z))"
  by pat_completeness auto
termination
  by (relation "measure (\<lambda>(x, h, al, n, i, s). n - 1 - i)") auto

declare thomas_forward.simps [simp del]

text \<open>
  The back substitution, \<^verbatim>\<open>for (int i = static_cast<int>(n) - 2; i >= 0; --i)\<close>, on
  \<^verbatim>\<open>b_\<close>, \<^verbatim>\<open>c_\<close> and \<^verbatim>\<open>d_\<close>; the counter of the model is \<open>i + 1\<close>.
\<close>

fun back_substitution ::
  "real list \<Rightarrow> real list \<Rightarrow> real list \<Rightarrow> real list \<Rightarrow> nat
   \<Rightarrow> real list \<times> real list \<times> real list \<Rightarrow> real list \<times> real list \<times> real list" where
  "back_substitution y h mu z 0 (b, c, d) = (b, c, d)"
| "back_substitution y h mu z (Suc i) (b, c, d) =
     (let c' = c[i := z ! i - mu ! i * c ! (i + 1)];
          b' = b[i := (y ! (i + 1) - y ! i) / h ! i - h ! i * (c' ! (i + 1) + 2.0 * c' ! i) / 3.0];
          d' = d[i := (c' ! (i + 1) - c' ! i) / (3.0 * h ! i)]
      in back_substitution y h mu z i (b', c', d'))"

text \<open>
  The two loops that fill \<open>h\<close> (\<open>n - 1\<close> entries) and \<open>alpha\<close> (\<open>n\<close> entries, of which the
  first and the last stay zero).
\<close>

definition spline_h :: "real list \<Rightarrow> real list" where
  "spline_h x = map (\<lambda>i. x ! (i + 1) - x ! i) [0..<length x - 1]"

definition spline_alpha :: "real list \<Rightarrow> real list \<Rightarrow> nat \<Rightarrow> real list" where
  "spline_alpha y h n =
     map (\<lambda>i. if 1 \<le> i \<and> i < n - 1
              then 3.0 / h ! i * (y ! (i + 1) - y ! i) - 3.0 / h ! (i - 1) * (y ! i - y ! (i - 1))
              else 0) [0..<n]"

definition calcSplineCoefficients :: "CubicSpline \<Rightarrow> real list \<Rightarrow> real list \<Rightarrow> CubicSpline" where
  "calcSplineCoefficients s x y =
     (let n = length x in
      if n < 2 then s
      else
        let s1 = s \<lparr> m_x := x, m_y := y, m_a := y,
                     m_b := resize n (m_b s), m_c := resize n (m_c s), m_d := resize n (m_d s) \<rparr>
        in
        if n = 2
        then s1 \<lparr> m_b := (m_b s1)[0 := (y ! 1 - y ! 0) / (x ! 1 - x ! 0)],
                  m_c := (m_c s1)[0 := 0.0],
                  m_d := (m_d s1)[0 := 0.0] \<rparr>
        else
          let h = spline_h x;
              alpha' = spline_alpha y h n;
              l0 = (replicate n 0)[0 := 1.0];
              mu0 = (replicate n 0)[0 := 0.0];
              z0 = (replicate n 0)[0 := 0.0];
              (l1, mu, z1) = thomas_forward x h alpha' n 1 (l0, mu0, z0);
              l = l1[n - 1 := 1.0];
              z = z1[n - 1 := 0.0];
              c1 = (m_c s1)[n - 1 := 0.0];
              (b, c, d) = back_substitution y h mu z (n - 1) (m_b s1, c1, m_d s1)
          in s1 \<lparr> m_b := b, m_c := c, m_d := d \<rparr>)"

text \<open>
  \<^verbatim>\<open>std::lower_bound(first, last, v)\<close> on random-access iterators: the library's binary
  search for the first position whose element is not less than \<open>v\<close>.
\<close>

function lower_bound_loop :: "real list \<Rightarrow> real \<Rightarrow> nat \<Rightarrow> nat \<Rightarrow> nat" where
  "lower_bound_loop v val first len =
     (if 0 < len
      then let half = len div 2; middle = first + half
           in if v ! middle < val
              then lower_bound_loop v val (middle + 1) (len - half - 1)
              else lower_bound_loop v val first half
      else first)"
  by pat_completeness auto
termination
  by (relation "measure (\<lambda>(v, val, first, len). len)") auto

declare lower_bound_loop.simps [simp del]

definition std_lower_bound :: "real list \<Rightarrow> real \<Rightarrow> nat" where
  "std_lower_bound v val = lower_bound_loop v val 0 (length v)"

definition findSegment :: "CubicSpline \<Rightarrow> real \<Rightarrow> nat" where
  "findSegment s x =
     (let it = std_lower_bound (m_x s) x in
      if it = length (m_x s) then size_t_sub (length (m_x s)) 2
      else if it = 0 then 0
      else it - 1)"

definition interpolate :: "CubicSpline \<Rightarrow> real \<Rightarrow> real" where
  "interpolate s x =
     (if m_x s = [] then 0.0
      else if x \<le> hd (m_x s) then hd (m_y s)
      else if x \<ge> last (m_x s) then last (m_y s)
      else let i = findSegment s x;
               dx = x - m_x s ! i
           in m_a s ! i + m_b s ! i * dx + m_c s ! i * dx * dx + m_d s ! i * dx * dx * dx)"

definition derivative :: "CubicSpline \<Rightarrow> real \<Rightarrow> real" where
  "derivative s x =
     (if m_x s = [] then 0.0
      else if x \<le> hd (m_x s) then hd (m_b s)
      else if x \<ge> last (m_x s) then last (m_b s)
      else let i = findSegment s x;
               dx = x - m_x s ! i
           in m_b s ! i + 2.0 * m_c s ! i * dx + 3.0 * m_d s ! i * dx * dx)"

definition secondDerivative :: "CubicSpline \<Rightarrow> real \<Rightarrow> real" where
  "secondDerivative s x =
     (if m_x s = [] then 0.0
      else if x \<le> hd (m_x s) \<or> x \<ge> last (m_x s) then 0.0
      else let i = findSegment s x;
               dx = x - m_x s ! i
           in 2.0 * m_c s ! i + 6.0 * m_d s ! i * dx)"

text \<open>
  A polynomial of degree at most 3 by its coefficients, with its first and second
  derivative: the functions that the samples of the round-trip property are taken from.
\<close>

definition cubic :: "real \<Rightarrow> real \<Rightarrow> real \<Rightarrow> real \<Rightarrow> real \<Rightarrow> real" where
  "cubic c0 c1 c2 c3 t = c0 + c1 * t + c2 * t\<^sup>2 + c3 * t ^ 3"

definition cubic' :: "real \<Rightarrow> real \<Rightarrow> real \<Rightarrow> real \<Rightarrow> real \<Rightarrow> real" where
  "cubic' c0 c1 c2 c3 t = c1 + 2 * c2 * t + 3 * c3 * t\<^sup>2"

definition cubic'' :: "real \<Rightarrow> real \<Rightarrow> real \<Rightarrow> real \<Rightarrow> real \<Rightarrow> real" where
  "cubic'' c0 c1 c2 c3 t = 2 * c2 + 6 * c3 * t"

text \<open>
  The specification's reading of the object, a natural cubic spline
  \<open>s(t) = a\<^sub>i + b\<^sub>i \<Delta> + c\<^sub>i \<Delta>\<^sup>2 + d\<^sub>i \<Delta>\<^sup>3\<close> on each segment with \<open>s'' = 0\<close> at both
  endpoints: the polynomial of segment \<open>i\<close> (with \<open>\<Delta> = t - x\<^sub>i\<close>) and its first and
  second derivative, by the stored coefficients.
\<close>

definition spline_segment :: "CubicSpline \<Rightarrow> nat \<Rightarrow> real \<Rightarrow> real" where
  "spline_segment s i t =
     m_a s ! i + m_b s ! i * (t - m_x s ! i) + m_c s ! i * (t - m_x s ! i)\<^sup>2
     + m_d s ! i * (t - m_x s ! i) ^ 3"

definition spline_segment' :: "CubicSpline \<Rightarrow> nat \<Rightarrow> real \<Rightarrow> real" where
  "spline_segment' s i t =
     m_b s ! i + 2 * m_c s ! i * (t - m_x s ! i) + 3 * m_d s ! i * (t - m_x s ! i)\<^sup>2"

definition spline_segment'' :: "CubicSpline \<Rightarrow> nat \<Rightarrow> real \<Rightarrow> real" where
  "spline_segment'' s i t = 2 * m_c s ! i + 6 * m_d s ! i * (t - m_x s ! i)"


section \<open>Configuration defaults\<close>

text \<open>
  Claim C8.  A default-constructed \<^verbatim>\<open>PathOptimizerParam\<close> carries the documented
  defaults: output sampling 0.5 m with 2.0 m of trailing length; a horizon of 100 points
  at 1.0 m; a solver budget of 50 ms; terminal and goal lateral weights 100 and 1000;
  optimization centre offset 0; steering limits 0.7 rad and 0.5 rad/s; avoidance on with
  precision 0.5 and soft weight 1000; the terminal constraint on with thresholds 0.3 and
  0.1; replan thresholds 0.5 m, 5.0 m and 2.0 s; the stop outside the drivable area on
  with margin 0.5; skipping the optimization off; resetting the previous optimization on.
\<close>

theorem PathOptimizerParam_defaults:
  "output_delta_arc_length (trajectory PathOptimizerParam_init) = 0.5
   \<and> output_backward_traj_length (trajectory PathOptimizerParam_init) = 2.0
   \<and> num_points (mpt PathOptimizerParam_init) = 100
   \<and> delta_arc_length_for_mpt_points (mpt PathOptimizerParam_init) = 1.0
   \<and> max_optimization_time_ms (mpt PathOptimizerParam_init) = 50
   \<and> terminal_lat_error_weight (mpt PathOptimizerParam_init) = 100
   \<and> goal_lat_error_weight (mpt PathOptimizerParam_init) = 1000
   \<and> optimization_center_offset (mpt PathOptimizerParam_init) = 0.0
   \<and> max_steer_rad (mpt PathOptimizerParam_init) = 0.7
   \<and> max_steer_rate_rad_per_s (mpt PathOptimizerParam_init) = 0.5
   \<and> enable_avoidance (mpt PathOptimizerParam_init) = True
   \<and> avoidance_precision (mpt PathOptimizerParam_init) = 0.5
   \<and> soft_collision_free_weight (mpt PathOptimizerParam_init) = 1000
   \<and> enable_terminal_constraint (mpt PathOptimizerParam_init) = True
   \<and> terminal_lat_error_threshold (mpt PathOptimizerParam_init) = 0.3
   \<and> terminal_yaw_error_threshold (mpt PathOptimizerParam_init) = 0.1
   \<and> max_path_shape_change_dist (replan_checker PathOptimizerParam_init) = 0.5
   \<and> max_ego_moving_dist (replan_checker PathOptimizerParam_init) = 5.0
   \<and> max_delta_time_sec (replan_checker PathOptimizerParam_init) = 2.0
   \<and> enable_outside_drivable_area_stop PathOptimizerParam_init = True
   \<and> vehicle_stop_margin_outside_drivable_area PathOptimizerParam_init = 0.5
   \<and> enable_skip_optimization PathOptimizerParam_init = False
   \<and> enable_reset_prev_optimization PathOptimizerParam_init = True"
  by (simp add: PathOptimizerParam_init_def TrajectoryParam_init_def MPTParam_init_def
      ReplanCheckerParam_init_def)

section \<open>The one-step state equation\<close>

lemma bindE_Inr [simp]: "bindE (Inr v) f = f v"
  by (simp add: bindE_def)

lemma bindE_Inl [simp]: "bindE (Inl e) f = Inl e"
  by (simp add: bindE_def)

lemma std_clamp_max_min:
  "lo \<le> hi \<Longrightarrow> std_clamp v lo hi = Inr (max lo (min hi v))"
  by (auto simp: std_clamp_def max_def min_def)

lemma less_2_cases_nat: "(i::nat) < 2 \<longleftrightarrow> i = 0 \<or> i = 1"
  by auto

lemma comma_init_2_2: "comma_init 2 2 [a, b, c, d] = of_rows [[a, b], [c, d]]"
  by (auto simp: comma_init_def of_rows_def fun_eq_iff less_2_cases_nat)

lemma comma_init_2_1: "comma_init 2 1 [a, b] = of_rows [[a], [b]]"
  by (auto simp: comma_init_def of_rows_def fun_eq_iff less_2_cases_nat)

lemma calculateStateEquationMatrix_of_rows:
  assumes "0 \<le> steer_limit vm"
  shows "calculateStateEquationMatrix vm \<kappa> ds =
           (let L = wheelbase vm;
                \<delta> = arctan (L * \<kappa>);
                \<delta>' = max (- steer_limit vm) (min (steer_limit vm) \<delta>)
            in Inr (of_rows [[1, ds], [0, 1]],
                    of_rows [[0], [ds / (L * (cos \<delta>)\<^sup>2)]],
                    of_rows [[0], [- ds * \<kappa> + (ds / L) * (tan \<delta>' - \<delta>' / (cos \<delta>')\<^sup>2)]]))"
proof -
  have "std_clamp (arctan (wheelbase vm * \<kappa>)) (- steer_limit vm) (steer_limit vm)
        = Inr (max (- steer_limit vm) (min (steer_limit vm) (arctan (wheelbase vm * \<kappa>))))"
    using assms by (intro std_clamp_max_min) simp
  then show ?thesis
    unfolding calculateStateEquationMatrix_def Let_def comma_init_2_2 comma_init_2_1
    by (simp add: power2_eq_square)
qed

text \<open>
  Claim C2.  For a vehicle model whose steering limit is not negative (the precondition
  of \<^verbatim>\<open>std::clamp\<close>) and for every curvature \<open>\<kappa>\<close> and step \<open>ds\<close>,
  \<^verbatim>\<open>calculateStateEquationMatrix\<close> returns \<open>A\<^sub>d = [[1, ds], [0, 1]]\<close>,
  \<open>B\<^sub>d = [0, ds / (L cos\<^sup>2 \<delta>)]\<close> and
  \<open>W\<^sub>d = [0, - ds \<kappa> + (ds / L) (tan \<delta>* - \<delta>* / cos\<^sup>2 \<delta>*)]\<close>, with \<open>L\<close> the wheelbase,
  \<open>\<delta> = atan (L \<kappa>)\<close> and \<open>\<delta>*\<close> the angle \<open>\<delta>\<close> brought into \<open>[- steer_limit, steer_limit]\<close>.
  \<open>A\<^sub>d\<close> does not mention \<open>\<kappa>\<close>, and only \<open>W\<^sub>d\<close> mentions \<open>\<delta>*\<close>.
\<close>

theorem calculateStateEquationMatrix_formula:
  assumes "0 \<le> steer_limit vm"
  shows "calculateStateEquationMatrix vm \<kappa> ds =
           (let L = wheelbase vm;
                \<delta> = arctan (L * \<kappa>);
                \<delta>' = max (- steer_limit vm) (min (steer_limit vm) \<delta>)
            in Inr (of_rows [[1, ds], [0, 1]],
                    of_rows [[0], [ds / (L * (cos \<delta>)\<^sup>2)]],
                    of_rows [[0], [- ds * \<kappa> + (ds / L) * (tan \<delta>' - \<delta>' / (cos \<delta>')\<^sup>2)]]))"
  using assms by (rule calculateStateEquationMatrix_of_rows)

theorem calculateStateEquationMatrix_formula_witness:
  "(0::real) \<le> steer_limit \<lparr> wheelbase = 2, steer_limit = 1 \<rparr>
   \<and> calculateStateEquationMatrix \<lparr> wheelbase = 2, steer_limit = 1 \<rparr> 0 3 =
       Inr (of_rows [[1, 3], [0, 1]], of_rows [[0], [3 / 2]], of_rows [[0], [0]])"
  using calculateStateEquationMatrix_formula [of "\<lparr> wheelbase = 2, steer_limit = 1 \<rparr>" 0 3]
  by simp

lemma calculateStateEquationMatrix_curvature_0:
  assumes "0 \<le> steer_limit vm"
  shows "calculateStateEquationMatrix vm 0 ds =
           Inr (of_rows [[1, ds], [0, 1]], of_rows [[0], [ds / wheelbase vm]], of_rows [[0], [0]])"
  using assms by (simp add: calculateStateEquationMatrix_of_rows)

lemma step_matrices_eq:
  assumes "0 \<le> steer_limit vm"
  shows "step_matrices vm ps j =
           (of_rows [[1, delta_arc_length (ps ! j)], [0, 1]],
            of_rows [[0], [delta_arc_length (ps ! j) / wheelbase vm]],
            of_rows [[0], [0]])"
  using assms by (simp add: step_matrices_def calculateStateEquationMatrix_curvature_0)


section \<open>Sizes and matrix operations\<close>

lemma size_t_of_int_getDimX [simp]: "size_t_of_int (getDimX vm) = 2"
  by (simp add: size_t_of_int_def getDimX_def SIZE_WIDTH_def)

lemma size_t_of_int_getDimU [simp]: "size_t_of_int (getDimU vm) = 1"
  by (simp add: size_t_of_int_def getDimU_def SIZE_WIDTH_def)

lemma size_t_mul_small: "a * b < 2 ^ 64 \<Longrightarrow> size_t_mul a b = a * b"
  by (simp add: size_t_mul_def SIZE_WIDTH_def)

lemma wrap_sub_small:
  fixes a b m :: nat
  assumes "b \<le> a" "a < m"
  shows "(a + m - b mod m) mod m = a - b"
proof -
  have b: "b mod m = b" using assms by simp
  have "a + m - b = (a - b) + m" using assms by simp
  then have "(a + m - b) mod m = (a - b) mod m"
    by (metis mod_add_self2)
  also have "\<dots> = a - b" using assms by simp
  finally show ?thesis by (simp add: b)
qed

lemma size_t_sub_small: "b \<le> a \<Longrightarrow> a < 2 ^ 64 \<Longrightarrow> size_t_sub a b = a - b"
  unfolding size_t_sub_def SIZE_WIDTH_def by (rule wrap_sub_small)

lemma size_t_sub_0_1: "size_t_sub 0 1 = 2 ^ 64 - 1"
  by (simp add: size_t_sub_def SIZE_WIDTH_def)

lemma size_t_of_length_small: "length xs < 2 ^ 64 \<Longrightarrow> size_t_of_length xs = length xs"
  by (simp add: size_t_of_length_def SIZE_WIDTH_def)

lemma Index_of_size_t_small: "n < 2 ^ 63 \<Longrightarrow> Index_of_size_t n = int n"
  by (simp add: Index_of_size_t_def SIZE_WIDTH_def)

lemma Index_of_size_t_max: "Index_of_size_t (2 ^ 64 - 1) = - 1"
  by (simp add: Index_of_size_t_def SIZE_WIDTH_def)

lemma sum_lessThan_2: "(\<Sum>t<(2::nat). f t) = f 0 + f (1::nat)"
  by (simp add: numeral_2_eq_2)

lemma block_Inr:
  "i + p \<le> rows M \<Longrightarrow> j + q \<le> cols M \<Longrightarrow>
   block M i j p q = Inr \<lparr> rows = p, cols = q,
     coeff = (\<lambda>a b. if a < p \<and> b < q then coeff M (i + a) (j + b) else 0) \<rparr>"
  by (simp add: block_def)

lemma set_block_Inr:
  "i + p \<le> rows M \<Longrightarrow> j + q \<le> cols M \<Longrightarrow> rows V = p \<Longrightarrow> cols V = q \<Longrightarrow>
   set_block M i j p q V = Inr (M \<lparr> coeff := (\<lambda>a b. if i \<le> a \<and> a < i + p \<and> j \<le> b \<and> b < j + q
                                      then coeff V (a - i) (b - j) else coeff M a b) \<rparr>)"
  by (simp add: set_block_def)

lemma mat_mul_Inr:
  "cols P = rows Q \<Longrightarrow>
   mat_mul P Q = Inr \<lparr> rows = rows P, cols = cols Q,
                 coeff = (\<lambda>i j. if i < rows P \<and> j < cols Q
                                 then (\<Sum>t<cols P. coeff P i t * coeff Q t j) else 0) \<rparr>"
  by (simp add: mat_mul_def)

lemma mat_add_Inr:
  "rows P = rows Q \<Longrightarrow> cols P = cols Q \<Longrightarrow>
   mat_add P Q = Inr \<lparr> rows = rows P, cols = cols P,
                 coeff = (\<lambda>i j. if i < rows P \<and> j < cols P
                                 then coeff P i j + coeff Q i j else 0) \<rparr>"
  by (simp add: mat_add_def)

section \<open>The loops of calcMatrix\<close>

lemma calcMatrix_B_loop_inv:
  assumes "rows Ad = 2" "cols Ad = 2" "rows B = 2 * N" "cols B = N - 1"
    and "1 \<le> i" "i < N" "k \<le> i - 1" "2 * N < 2 ^ 64"
    and "\<forall>j a c. a < 2 \<longrightarrow> coeff B (2 * j + a) c =
           (if j < i then F j a c
            else if j = i \<and> c < k then coeff Ad a 0 * F (i - 1) 0 c + coeff Ad a 1 * F (i - 1) 1 c
            else 0)"
  shows "\<exists>B'. calcMatrix_B_loop Ad 2 1 i k B = Inr B' \<and> rows B' = 2 * N \<and> cols B' = N - 1 \<and>
           (\<forall>j a c. a < 2 \<longrightarrow> coeff B' (2 * j + a) c =
           (if j < i then F j a c
            else if j = i \<and> c < i - 1 then coeff Ad a 0 * F (i - 1) 0 c + coeff Ad a 1 * F (i - 1) 1 c
            else 0))"
  using assms
proof (induction "i - 1 - k" arbitrary: k B)
  case 0
  then have "k = i - 1" by simp
  moreover have "size_t_sub i 1 = i - 1"
    using 0 by (intro size_t_sub_small) auto
  ultimately show ?case using 0
    by (subst calcMatrix_B_loop.simps) (simp del: One_nat_def)
next
  case (Suc n)
  then have k: "k < i - 1" by simp
  have sub: "size_t_sub i 1 = i - 1"
    using Suc.prems by (intro size_t_sub_small) auto
  have m1: "size_t_mul (i - 1) 2 = 2 * (i - 1)" "size_t_mul i 2 = 2 * i" "size_t_mul k 1 = k"
    using Suc.prems k by (simp_all add: size_t_mul_small)
  define prev where "prev = \<lparr> rows = 2, cols = 1,
     coeff = (\<lambda>a b. if a < 2 \<and> b < 1 then coeff B (2 * (i - 1) + a) (k + b) else 0) \<rparr>"
  have b1: "block B (2 * (i - 1)) k 2 1 = Inr prev"
    unfolding prev_def using Suc.prems k by (intro block_Inr) auto
  define prod where "prod = \<lparr> rows = 2, cols = 1,
                 coeff = (\<lambda>i j. if i < 2 \<and> j < 1
                                 then (\<Sum>t<2. coeff Ad i t * coeff prev t j) else 0) \<rparr>"
  have b2: "mat_mul Ad prev = Inr prod"
    unfolding prod_def using Suc.prems by (simp add: mat_mul_def prev_def cong: if_cong)
  define B1 where "B1 = B \<lparr> coeff := (\<lambda>a b. if 2 * i \<le> a \<and> a < 2 * i + 2 \<and> k \<le> b \<and> b < k + 1
                                      then coeff prod (a - 2 * i) (b - k) else coeff B a b) \<rparr>"
  have b3: "set_block B (2 * i) k 2 1 prod = Inr B1"
    unfolding B1_def using Suc.prems k by (intro set_block_Inr) (auto simp: prod_def)
  have step: "calcMatrix_B_loop Ad 2 1 i k B = calcMatrix_B_loop Ad 2 1 i (Suc k) B1"
    by (subst calcMatrix_B_loop.simps) (simp only: sub m1 k if_True b1 b2 b3 bindE_Inr sum.case)
  have cB1: "coeff B1 r c = (if 2 * i \<le> r \<and> r < 2 * i + 2 \<and> k \<le> c \<and> c < k + 1
                             then coeff prod (r - 2 * i) (c - k) else coeff B r c)" for r c
    by (simp add: B1_def)
  have inv: "\<forall>j a c. a < 2 \<longrightarrow> coeff B1 (2 * j + a) c =
           (if j < i then F j a c
            else if j = i \<and> c < Suc k then coeff Ad a 0 * F (i - 1) 0 c + coeff Ad a 1 * F (i - 1) 1 c
            else 0)"
  proof (intro allI impI)
    fix j a c :: nat assume a: "a < 2"
    have prevc: "coeff prev t 0 = F (i - 1) t k" if "t < 2" for t
      using that Suc.prems(9) \<open>1 \<le> i\<close> by (simp add: prev_def)
    show "coeff B1 (2 * j + a) c =
           (if j < i then F j a c
            else if j = i \<and> c < Suc k then coeff Ad a 0 * F (i - 1) 0 c + coeff Ad a 1 * F (i - 1) 1 c
            else 0)"
    proof (cases "j = i \<and> c = k")
      case True
      then show ?thesis using a prevc k
        by (simp add: B1_def prod_def sum_lessThan_2)
    next
      case False
      then have "\<not> (2 * i \<le> 2 * j + a \<and> 2 * j + a < 2 * i + 2 \<and> k \<le> c \<and> c < k + 1)"
        using a by auto
      then have "coeff B1 (2 * j + a) c = coeff B (2 * j + a) c"
        by (subst cB1) (simp only: if_False)
      also have "\<dots> = (if j < i then F j a c
            else if j = i \<and> c < k then coeff Ad a 0 * F (i - 1) 0 c + coeff Ad a 1 * F (i - 1) 1 c
            else 0)"
        using Suc.prems(9) a by blast
      finally show ?thesis using False by (auto simp: less_Suc_eq)
    qed
  qed
  have "n = i - 1 - Suc k" using Suc.hyps(2) by simp
  from Suc.hyps(1)[OF this Suc.prems(1,2) _ _ Suc.prems(5,6) _ Suc.prems(8) inv]
  show ?case using step k Suc.prems by (simp add: B1_def)
qed

lemma calcMatrix_body_inv:
  assumes inv: "calcMatrix_inv T N (Suc i) m"
    and i: "Suc i < N" and N: "length ps = N" "2 * N < 2 ^ 64"
    and T: "T i = (Ad, Bd, Wd)"
    and calc: "calculateStateEquationMatrix vm 0 (delta_arc_length (ps ! i)) = Inr (Ad, Bd, Wd)"
    and dims: "rows Ad = 2" "cols Ad = 2" "rows Bd = 2" "cols Bd = 1" "rows Wd = 2" "cols Wd = 1"
  shows "\<exists>m'. calcMatrix_body vm ps 2 1 (Suc i) m = Inr m' \<and> calcMatrix_inv T N (Suc (Suc i)) m'"
proof -
  let ?A = "mat_A m" and ?B = "mat_B m" and ?W = "mat_W m"
  from inv have dA: "rows ?A = 2 * N" "cols ?A = 2 * N"
    and dB: "rows ?B = 2 * N" "cols ?B = N - 1"
    and dW: "rows ?W = 2 * N" "cols ?W = 1"
    and iB: "\<And>j a c. a < 2 \<Longrightarrow> coeff ?B (2 * j + a) c = (if j < Suc i then B_rec T j a c else 0)"
    and iW: "\<And>j a c. a < 2 \<Longrightarrow> coeff ?W (2 * j + a) c = (if j < Suc i \<and> c = 0 then W_rec T j a else 0)"
    by (simp_all add: calcMatrix_inv_def)
  have sub: "size_t_sub (Suc i) 1 = i"
    using i N by (subst size_t_sub_small) auto
  have mul: "size_t_mul i 2 = 2 * i" "size_t_mul (Suc i) 2 = 2 * Suc i" "size_t_mul i 1 = i"
    using i N by (simp_all add: size_t_mul_small)
  have at: "vector_at ps i = Inr (ps ! i)"
    using i N by (simp add: vector_at_def)
  \<comment> \<open>the update of W\<close>
  define Wprev where "Wprev = \<lparr> rows = 2, cols = 1,
     coeff = (\<lambda>a b. if a < 2 \<and> b < 1 then coeff ?W (2 * i + a) (0 + b) else 0) \<rparr>"
  have w1: "segment ?W (2 * i) 2 = Inr Wprev"
    unfolding Wprev_def segment_def using i dW by (intro block_Inr) auto
  define AW where "AW = \<lparr> rows = 2, cols = 1,
     coeff = (\<lambda>a b. if a < 2 \<and> b < 1 then (\<Sum>t<2. coeff Ad a t * coeff Wprev t b) else 0) \<rparr>"
  have w2: "mat_mul Ad Wprev = Inr AW"
    unfolding AW_def using dims by (simp add: mat_mul_def Wprev_def cong: if_cong)
  define Wi where "Wi = \<lparr> rows = 2, cols = 1,
     coeff = (\<lambda>a b. if a < 2 \<and> b < 1 then coeff AW a b + coeff Wd a b else 0) \<rparr>"
  have w3: "mat_add AW Wd = Inr Wi"
    unfolding Wi_def using dims by (simp add: mat_add_def AW_def cong: if_cong)
  define W' where "W' = ?W \<lparr> coeff := (\<lambda>a b. if 2 * Suc i \<le> a \<and> a < 2 * Suc i + 2 \<and> 0 \<le> b \<and> b < 0 + 1
                                      then coeff Wi (a - 2 * Suc i) (b - 0) else coeff ?W a b) \<rparr>"
  have w4: "set_segment ?W (2 * Suc i) 2 Wi = Inr W'"
    unfolding W'_def set_segment_def using i dW by (intro set_block_Inr) (auto simp: Wi_def)
  \<comment> \<open>the update of B\<close>
  have "\<exists>B'. calcMatrix_B_loop Ad 2 1 (Suc i) 0 ?B = Inr B' \<and> rows B' = 2 * N \<and> cols B' = N - 1 \<and>
           (\<forall>j a c. a < 2 \<longrightarrow> coeff B' (2 * j + a) c =
           (if j < Suc i then B_rec T j a c
            else if j = Suc i \<and> c < Suc i - 1
                 then coeff Ad a 0 * B_rec T (Suc i - 1) 0 c + coeff Ad a 1 * B_rec T (Suc i - 1) 1 c
            else 0))"
    using dims dB i N iB by (intro calcMatrix_B_loop_inv) auto
  then obtain B1 where b1: "calcMatrix_B_loop Ad 2 1 (Suc i) 0 ?B = Inr B1"
    and dB1: "rows B1 = 2 * N" "cols B1 = N - 1"
    and iB1: "\<And>j a c. a < 2 \<Longrightarrow> coeff B1 (2 * j + a) c =
           (if j < Suc i then B_rec T j a c
            else if j = Suc i \<and> c < i
                 then coeff Ad a 0 * B_rec T i 0 c + coeff Ad a 1 * B_rec T i 1 c
            else 0)"
    by auto
  define B' where "B' = B1 \<lparr> coeff := (\<lambda>a b. if 2 * Suc i \<le> a \<and> a < 2 * Suc i + 2 \<and> i \<le> b \<and> b < i + 1
                                      then coeff Bd (a - 2 * Suc i) (b - i) else coeff B1 a b) \<rparr>"
  have b2: "set_block B1 (2 * Suc i) i 2 1 Bd = Inr B'"
    unfolding B'_def using i dB1 dims by (intro set_block_Inr) auto
  \<comment> \<open>the update of A\<close>
  define A' where "A' = ?A \<lparr> coeff := (\<lambda>a b. if 2 * Suc i \<le> a \<and> a < 2 * Suc i + 2 \<and> 2 * i \<le> b \<and> b < 2 * i + 2
                                      then coeff Ad (a - 2 * Suc i) (b - 2 * i) else coeff ?A a b) \<rparr>"
  have a1: "set_block ?A (2 * Suc i) (2 * i) 2 2 Ad = Inr A'"
    unfolding A'_def using i dA dims by (intro set_block_Inr) auto
  have body: "calcMatrix_body vm ps 2 1 (Suc i) m = Inr \<lparr> mat_A = A', mat_B = B', mat_W = W' \<rparr>"
    unfolding calcMatrix_body_def
    by (simp only: sub mul at div_0 calc bindE_Inr w1 w2 w3 w4 b1 b2 a1 prod.case)
  \<comment> \<open>the invariant\<close>
  have cW': "coeff W' r c = (if 2 * Suc i \<le> r \<and> r < 2 * Suc i + 2 \<and> c < 1
                             then coeff Wi (r - 2 * Suc i) c else coeff ?W r c)" for r c
    by (simp add: W'_def)
  have cWi: "coeff Wi a 0 = W_rec T (Suc i) a" if "a < 2" for a
    using that iW[of 0 i 0] iW[of 1 i 0]
    by (simp add: Wi_def AW_def Wprev_def sum_lessThan_2 T)
  have invW: "coeff W' (2 * j + a) c = (if j < Suc (Suc i) \<and> c = 0 then W_rec T j a else 0)"
    if a: "a < 2" for j a c
  proof (cases "j = Suc i \<and> c = 0")
    case True
    then show ?thesis using a cWi by (simp add: cW')
  next
    case False
    then have "\<not> (2 * Suc i \<le> 2 * j + a \<and> 2 * j + a < 2 * Suc i + 2 \<and> c < 1)"
      using a by auto
    then have "coeff W' (2 * j + a) c = coeff ?W (2 * j + a) c"
      by (subst cW') (simp only: if_False)
    then show ?thesis using False iW[OF a, of j c] by (auto simp: less_Suc_eq)
  qed
  have cB': "coeff B' r c = (if 2 * Suc i \<le> r \<and> r < 2 * Suc i + 2 \<and> i \<le> c \<and> c < i + 1
                             then coeff Bd (r - 2 * Suc i) (c - i) else coeff B1 r c)" for r c
    by (simp add: B'_def)
  have invB: "coeff B' (2 * j + a) c = (if j < Suc (Suc i) then B_rec T j a c else 0)"
    if a: "a < 2" for j a c
  proof (cases "j = Suc i \<and> c = i")
    case True
    then show ?thesis using a by (simp add: cB' T)
  next
    case False
    then have "\<not> (2 * Suc i \<le> 2 * j + a \<and> 2 * j + a < 2 * Suc i + 2 \<and> i \<le> c \<and> c < i + 1)"
      using a by auto
    then have "coeff B' (2 * j + a) c = coeff B1 (2 * j + a) c"
      by (subst cB') (simp only: if_False)
    then show ?thesis using False iB1[OF a, of j c] by (auto simp: less_Suc_eq T)
  qed
  have "calcMatrix_inv T N (Suc (Suc i)) \<lparr> mat_A = A', mat_B = B', mat_W = W' \<rparr>"
    unfolding calcMatrix_inv_def using invW invB dA dB1 dW
    by (simp add: A'_def B'_def W'_def)
  with body show ?thesis by blast
qed

lemma calcMatrix_loop_inv:
  assumes "calcMatrix_inv T N i m" "1 \<le> i" "i \<le> N" "length ps = N" "2 * N < 2 ^ 64"
    and "\<And>j. j < N \<Longrightarrow> \<exists>Ad Bd Wd. T j = (Ad, Bd, Wd) \<and>
           calculateStateEquationMatrix vm 0 (delta_arc_length (ps ! j)) = Inr (Ad, Bd, Wd) \<and>
           rows Ad = 2 \<and> cols Ad = 2 \<and> rows Bd = 2 \<and> cols Bd = 1 \<and> rows Wd = 2 \<and> cols Wd = 1"
  shows "\<exists>m'. calcMatrix_loop vm ps 2 1 N i m = Inr m' \<and> calcMatrix_inv T N N m'"
  using assms(1-3)
proof (induction "N - i" arbitrary: i m)
  case 0
  then have "i = N" by simp
  with 0 show ?case
    by (subst calcMatrix_loop.simps) simp
next
  case (Suc n)
  then have lt: "i < N" by simp
  from Suc.prems(2) obtain i0 where i0: "i = Suc i0" by (cases i) auto
  from assms(6)[of i0] lt i0 obtain Ad Bd Wd where T: "T i0 = (Ad, Bd, Wd)"
    and calc: "calculateStateEquationMatrix vm 0 (delta_arc_length (ps ! i0)) = Inr (Ad, Bd, Wd)"
    and dims: "rows Ad = 2" "cols Ad = 2" "rows Bd = 2" "cols Bd = 1" "rows Wd = 2" "cols Wd = 1"
    by auto
  from calcMatrix_body_inv[OF Suc.prems(1)[unfolded i0] lt[unfolded i0] assms(4,5) T calc dims]
  obtain m' where body: "calcMatrix_body vm ps 2 1 i m = Inr m'"
    and inv': "calcMatrix_inv T N (Suc i) m'"
    unfolding i0 by blast
  have "n = N - Suc i" using Suc.hyps(2) by simp
  from Suc.hyps(1)[OF this inv'] lt
  obtain m'' where "calcMatrix_loop vm ps 2 1 N (Suc i) m' = Inr m''" "calcMatrix_inv T N N m''"
    by auto
  then show ?case using lt body
    by (subst calcMatrix_loop.simps) simp
qed


lemma calcMatrix_sizes:
  assumes "ps \<noteq> []" "2 * length ps < 2 ^ 63"
  shows "size_t_of_length ps = length ps"
    and "calcMatrix_N_x vm ps = 2 * length ps"
    and "calcMatrix_N_u vm ps = length ps - 1"
proof -
  have l: "length ps < 2 ^ 64" using assms by simp
  show n: "size_t_of_length ps = length ps" by (rule size_t_of_length_small[OF l])
  have "length ps * 2 < 2 ^ 64" using assms by simp
  then show "calcMatrix_N_x vm ps = 2 * length ps"
    by (simp add: calcMatrix_N_x_def n size_t_mul_small)
  have "1 \<le> length ps" using assms by (cases ps) auto
  then have "size_t_sub (length ps) 1 = length ps - 1" using l by (intro size_t_sub_small)
  moreover have "(length ps - 1) * 1 < 2 ^ 64" using l by simp
  ultimately show "calcMatrix_N_u vm ps = length ps - 1"
    by (simp add: calcMatrix_N_u_def n size_t_mul_small del: One_nat_def)
qed

lemma calcMatrix_characterisation:
  assumes "ps \<noteq> []" "2 * length ps < 2 ^ 63" "0 \<le> steer_limit vm"
  shows "\<exists>m. calcMatrix vm ps = Inr m \<and>
             calcMatrix_inv (step_matrices vm ps) (length ps) (length ps) m"
proof -
  let ?N = "length ps"
  have N1: "1 \<le> ?N" using assms by (cases ps) auto
  have N64: "2 * ?N < 2 ^ 64" using assms by simp
  note sz = calcMatrix_sizes[OF assms(1,2)]
  have ix: "Index_of_size_t (2 * ?N) = int (2 * ?N)" "Index_of_size_t (?N - 1) = int (?N - 1)"
    "Index_of_size_t 2 = 2"
    using assms by (simp_all add: Index_of_size_t_small)
  define A0 where "A0 = \<lparr> rows = 2 * ?N, cols = 2 * ?N, coeff = (\<lambda>i j. 0::real) \<rparr>"
  define B0 where "B0 = \<lparr> rows = 2 * ?N, cols = ?N - 1, coeff = (\<lambda>i j. 0::real) \<rparr>"
  define W where "W = \<lparr> rows = 2 * ?N, cols = 1, coeff = (\<lambda>i j. 0::real) \<rparr>"
  define Z where "Z = \<lparr> rows = 2, cols = 1, coeff = (\<lambda>i j. 0::real) \<rparr>"
  have z1: "MatrixXd_Zero (int (2 * ?N)) (int (2 * ?N)) = Inr A0"
    "MatrixXd_Zero (int (2 * ?N)) (int (?N - 1)) = Inr B0"
    "VectorXd_Zero (int (2 * ?N)) = Inr W" "VectorXd_Zero 2 = Inr Z"
    by (simp_all add: MatrixXd_Zero_def VectorXd_Zero_def A0_def B0_def W_def Z_def)
  define W0 where "W0 = W \<lparr> coeff := (\<lambda>a b. if 0 \<le> a \<and> a < 0 + 2 \<and> 0 \<le> b \<and> b < 0 + 1
                                      then coeff Z (a - 0) (b - 0) else coeff W a b) \<rparr>"
  have z2: "set_segment W 0 2 Z = Inr W0"
    unfolding W0_def set_segment_def using N1 by (intro set_block_Inr) (auto simp: W_def Z_def)
  have start: "calcMatrix vm ps = calcMatrix_loop vm ps 2 1 ?N 1 \<lparr> mat_A = A0, mat_B = B0, mat_W = W0 \<rparr>"
    unfolding calcMatrix_def Let_def
    by (simp only: sz ix z1 z2 bindE_Inr size_t_of_int_getDimX size_t_of_int_getDimU)
  have inv0: "calcMatrix_inv (step_matrices vm ps) ?N 1 \<lparr> mat_A = A0, mat_B = B0, mat_W = W0 \<rparr>"
    by (simp add: calcMatrix_inv_def A0_def B0_def W0_def W_def Z_def)
  have steps: "\<exists>Ad Bd Wd. step_matrices vm ps j = (Ad, Bd, Wd) \<and>
           calculateStateEquationMatrix vm 0 (delta_arc_length (ps ! j)) = Inr (Ad, Bd, Wd) \<and>
           rows Ad = 2 \<and> cols Ad = 2 \<and> rows Bd = 2 \<and> cols Bd = 1 \<and> rows Wd = 2 \<and> cols Wd = 1"
    for j
    using assms(3)
    by (simp add: step_matrices_eq calculateStateEquationMatrix_curvature_0 of_rows_def)
  from calcMatrix_loop_inv[OF inv0 _ N1 refl N64 steps]
  show ?thesis unfolding start by simp
qed

section \<open>The assembled horizon matrices\<close>

lemma B_rec_upper: "i \<le> k \<Longrightarrow> B_rec T i a k = 0"
  by (cases i) (auto split: prod.splits)

lemma W_rec_zero:
  assumes "\<And>j. \<exists>Ad Bd Wd. T j = (Ad, Bd, Wd) \<and> (\<forall>a. coeff Wd a 0 = 0)"
  shows "W_rec T i a = 0"
proof (induction i arbitrary: a)
  case 0
  show ?case by simp
next
  case (Suc i)
  from assms[of i] obtain Ad Bd Wd where "T i = (Ad, Bd, Wd)" "\<forall>a. coeff Wd a 0 = 0"
    by blast
  then show ?case using Suc by simp
qed

lemma nat_2j_a: "\<exists>j a. r = 2 * j + a \<and> a < (2::nat)"
  by (rule exI[of _ "r div 2"], rule exI[of _ "r mod 2"]) simp

text \<open>
  Claim C4.  For a non-empty list of \<open>N\<close> reference points (short enough for \<open>2 N\<close> to be
  an Eigen index) and a vehicle model with a non-negative steering limit, \<^verbatim>\<open>calcMatrix\<close>
  returns, with \<open>D\<^sub>x = getDimX() = 2\<close> and \<open>D\<^sub>u = getDimU() = 1\<close>, a matrix \<open>B\<close> of
  \<open>D\<^sub>x N\<close> rows and \<open>D\<^sub>u (N - 1)\<close> columns, a vector \<open>W\<close> of length \<open>D\<^sub>x N\<close> and a matrix
  \<open>A\<close> of \<open>D\<^sub>x N\<close> rows and columns; every \<open>2 \<times> 1\<close> block \<open>B[i, k]\<close> with \<open>k \<ge> i\<close> is zero,
  and so is the whole first block row of \<open>B\<close>.
\<close>

theorem calcMatrix_sizes_and_triangular:
  assumes "ps \<noteq> []" "2 * length ps < 2 ^ 63" "0 \<le> steer_limit vm"
  shows "\<exists>m. calcMatrix vm ps = Inr m
           \<and> getDimX vm = 2 \<and> getDimU vm = 1
           \<and> rows (mat_B m) = nat (getDimX vm) * length ps
           \<and> cols (mat_B m) = nat (getDimU vm) * (length ps - 1)
           \<and> rows (mat_W m) = nat (getDimX vm) * length ps \<and> cols (mat_W m) = 1
           \<and> rows (mat_A m) = nat (getDimX vm) * length ps
           \<and> cols (mat_A m) = nat (getDimX vm) * length ps
           \<and> (\<forall>i k. i < length ps \<longrightarrow> k < length ps - 1 \<longrightarrow> i \<le> k \<longrightarrow>
                  block (mat_B m) (2 * i) k 2 1 = MatrixXd_Zero 2 1)
           \<and> (\<forall>k < length ps - 1. block (mat_B m) 0 k 2 1 = MatrixXd_Zero 2 1)"
proof -
  from calcMatrix_characterisation[OF assms] obtain m where m: "calcMatrix vm ps = Inr m"
    and inv: "calcMatrix_inv (step_matrices vm ps) (length ps) (length ps) m"
    by blast
  let ?T = "step_matrices vm ps"
  from inv have d: "rows (mat_A m) = 2 * length ps" "cols (mat_A m) = 2 * length ps"
    "rows (mat_B m) = 2 * length ps" "cols (mat_B m) = length ps - 1"
    "rows (mat_W m) = 2 * length ps" "cols (mat_W m) = 1"
    and iB: "\<And>j a c. a < 2 \<Longrightarrow>
        coeff (mat_B m) (2 * j + a) c = (if j < length ps then B_rec ?T j a c else 0)"
    by (simp_all add: calcMatrix_inv_def)
  have tri: "block (mat_B m) (2 * i) k 2 1 = MatrixXd_Zero 2 1"
    if "i < length ps" "k < length ps - 1" "i \<le> k" for i k
  proof -
    have "coeff (mat_B m) (2 * i + a) k = 0" if "a < 2" for a
      using iB[OF that, of i k] \<open>i \<le> k\<close> by (simp add: B_rec_upper)
    then have "(\<lambda>a b. if a < 2 \<and> b < 1 then coeff (mat_B m) (2 * i + a) (k + b) else 0)
               = (\<lambda>a b. 0)"
      by (auto simp: fun_eq_iff)
    moreover have "2 * i + 2 \<le> rows (mat_B m)" "k + 1 \<le> cols (mat_B m)"
      using that d by simp_all
    ultimately show ?thesis
      by (simp add: block_Inr MatrixXd_Zero_def)
  qed
  have "block (mat_B m) 0 k 2 1 = MatrixXd_Zero 2 1" if "k < length ps - 1" for k
    using tri[of 0 k] that assms(1) by simp
  with m d tri show ?thesis
    by (simp add: getDimX_def getDimU_def)
qed

theorem calcMatrix_sizes_and_triangular_witness:
  "[ReferencePoint_init, ReferencePoint_init] \<noteq> []
   \<and> 2 * length [ReferencePoint_init, ReferencePoint_init] < (2::nat) ^ 63
   \<and> 0 \<le> steer_limit \<lparr> wheelbase = 2.79, steer_limit = 0.7 \<rparr>
   \<and> (\<exists>m. calcMatrix \<lparr> wheelbase = 2.79, steer_limit = 0.7 \<rparr>
               [ReferencePoint_init, ReferencePoint_init] = Inr m
            \<and> rows (mat_B m) = 4 \<and> cols (mat_B m) = 1 \<and> rows (mat_W m) = 4
            \<and> rows (mat_A m) = 4 \<and> cols (mat_A m) = 4
            \<and> block (mat_B m) 0 0 2 1 = MatrixXd_Zero 2 1)"
  using calcMatrix_sizes_and_triangular
          [of "[ReferencePoint_init, ReferencePoint_init]" "\<lparr> wheelbase = 2.79, steer_limit = 0.7 \<rparr>"]
  by auto

lemma coeff_of_rows_col0: "coeff (of_rows [[a], [b]]) t 0 = (if t = 0 then a else if t = 1 then b else 0)"
  by (auto simp: of_rows_def less_2_cases_nat)

lemma mat_mul_add_zero:
  assumes "cols P = rows Q" "rows W = rows P" "cols W = cols Q" "\<forall>i j. coeff W i j = 0"
  shows "bindE (mat_mul P Q) (\<lambda>R. mat_add R W) = mat_mul P Q"
  using assms by (auto simp: mat_mul_def mat_add_def fun_eq_iff)

text \<open>
  Claim C9.  For a non-empty list of reference points (short enough for \<open>2 N\<close> to be an
  Eigen index) and a vehicle model with a non-negative steering limit and a wheelbase
  other than zero (a zero wheelbase makes the quotient \<open>ds / wheelbase\<close> of doubles
  infinite, which the embedding does not represent), the offset vector \<open>W\<close> returned by
  \<^verbatim>\<open>calcMatrix\<close> is the zero vector of length \<open>2 N\<close>: at curvature 0 the vehicle model's
  \<open>W\<^sub>d\<close> is \<open>[0, 0]\<close> for every step \<open>ds\<close>, and the first block is set to zero.
  Consequently \<open>predict m U = B U\<close> for every input vector \<open>U\<close>.
\<close>

theorem calcMatrix_W_zero:
  assumes "ps \<noteq> []" "2 * length ps < 2 ^ 63" "0 \<le> steer_limit vm" "wheelbase vm \<noteq> 0"
  shows "\<exists>m. calcMatrix vm ps = Inr m
           \<and> Inr (mat_W m) = VectorXd_Zero (int (2 * length ps))
           \<and> (\<forall>ds. \<exists>Ad Bd. calculateStateEquationMatrix vm 0 ds = Inr (Ad, Bd, of_rows [[0], [0]]))
           \<and> (\<forall>U. cols U = 1 \<longrightarrow> predict m U = mat_mul (mat_B m) U)"
proof -
  from calcMatrix_characterisation[OF assms(1-3)] obtain m where m: "calcMatrix vm ps = Inr m"
    and inv: "calcMatrix_inv (step_matrices vm ps) (length ps) (length ps) m"
    by blast
  let ?T = "step_matrices vm ps"
  from inv have d: "rows (mat_B m) = 2 * length ps" "cols (mat_B m) = length ps - 1"
    "rows (mat_W m) = 2 * length ps" "cols (mat_W m) = 1"
    and iW: "\<And>j a c. a < 2 \<Longrightarrow>
        coeff (mat_W m) (2 * j + a) c = (if j < length ps \<and> c = 0 then W_rec ?T j a else 0)"
    by (simp_all add: calcMatrix_inv_def)
  have "\<exists>Ad Bd Wd. ?T j = (Ad, Bd, Wd) \<and> (\<forall>a. coeff Wd a 0 = 0)" for j
    using assms(3) by (simp add: step_matrices_eq coeff_of_rows_col0)
  then have Wz: "W_rec ?T j a = 0" for j a
    by (rule W_rec_zero)
  have cz: "coeff (mat_W m) r c = 0" for r c
  proof -
    obtain j a where "r = 2 * j + a" "a < 2" using nat_2j_a by blast
    then show ?thesis using iW[of a j c] Wz by simp
  qed
  then have "coeff (mat_W m) = (\<lambda>i j. 0)" by (simp add: fun_eq_iff)
  then have W: "mat_W m = \<lparr> rows = 2 * length ps, cols = 1, coeff = (\<lambda>i j. 0) \<rparr>"
    using d by (cases "mat_W m") simp
  have p: "predict m U = mat_mul (mat_B m) U" if "cols U = 1" for U
  proof (cases "cols (mat_B m) = rows U")
    case True
    then show ?thesis unfolding predict_def using that d cz
      by (intro mat_mul_add_zero) auto
  next
    case False
    then show ?thesis by (simp add: predict_def mat_mul_def)
  qed
  from m W p assms(3) show ?thesis
    by (auto simp: VectorXd_Zero_def MatrixXd_Zero_def calculateStateEquationMatrix_curvature_0)
qed

theorem calcMatrix_W_zero_witness:
  "[ReferencePoint_init, ReferencePoint_init] \<noteq> []
   \<and> 2 * length [ReferencePoint_init, ReferencePoint_init] < (2::nat) ^ 63
   \<and> 0 \<le> steer_limit \<lparr> wheelbase = 2.79, steer_limit = 0.7 \<rparr>
   \<and> wheelbase \<lparr> wheelbase = 2.79, steer_limit = 0.7 \<rparr> \<noteq> 0
   \<and> (\<exists>m. calcMatrix \<lparr> wheelbase = 2.79, steer_limit = 0.7 \<rparr>
               [ReferencePoint_init, ReferencePoint_init] = Inr m
            \<and> Inr (mat_W m) = VectorXd_Zero 4)"
  using calcMatrix_W_zero
          [of "[ReferencePoint_init, ReferencePoint_init]" "\<lparr> wheelbase = 2.79, steer_limit = 0.7 \<rparr>"]
  by auto

section \<open>The stored curvature is not read\<close>

lemma calcMatrix_body_cong:
  assumes "map delta_arc_length ps = map delta_arc_length qs"
  shows "calcMatrix_body vm ps D_x D_u i m = calcMatrix_body vm qs D_x D_u i m"
proof -
  have len: "length ps = length qs"
    using assms by (metis length_map)
  show ?thesis
  proof (cases "size_t_sub i 1 < length ps")
    case True
    then have "delta_arc_length (ps ! size_t_sub i 1) = delta_arc_length (qs ! size_t_sub i 1)"
      using assms len by (metis nth_map)
    then show ?thesis using True len
      by (simp add: calcMatrix_body_def vector_at_def)
  next
    case False
    then show ?thesis using len
      by (simp add: calcMatrix_body_def vector_at_def)
  qed
qed

lemma calcMatrix_loop_cong:
  assumes "map delta_arc_length ps = map delta_arc_length qs"
  shows "calcMatrix_loop vm ps D_x D_u N i m = calcMatrix_loop vm qs D_x D_u N i m"
proof (induction "N - i" arbitrary: i m)
  case 0
  then have "\<not> i < N" by simp
  then show ?case
    unfolding calcMatrix_loop.simps[of vm ps D_x D_u N i m]
      calcMatrix_loop.simps[of vm qs D_x D_u N i m]
    by simp
next
  case (Suc n)
  then have lt: "i < N" and n: "n = N - Suc i" by simp_all
  show ?case
    unfolding calcMatrix_loop.simps[of vm ps D_x D_u N i m]
      calcMatrix_loop.simps[of vm qs D_x D_u N i m]
    by (simp add: lt calcMatrix_body_cong[OF assms] Suc.hyps(1)[OF n] split: sum.splits)
qed

text \<open>
  Claim C3.  Two lists of reference points of the same length that agree, point by
  point, on \<open>delta_arc_length\<close> give the same result of \<^verbatim>\<open>calcMatrix\<close> (the same \<open>A\<close>,
  \<open>B\<close> and \<open>W\<close>), whatever their stored curvatures, poses and other fields are: the loop
  reads a reference point only for its \<open>delta_arc_length\<close> and hands the vehicle model
  the curvature 0.0.
\<close>

theorem calcMatrix_depends_on_delta_arc_length_only:
  assumes "map delta_arc_length ps = map delta_arc_length qs"
  shows "calcMatrix vm ps = calcMatrix vm qs"
proof -
  have "length ps = length qs"
    using assms by (metis length_map)
  then have "size_t_of_length ps = size_t_of_length qs"
    "calcMatrix_N_x vm ps = calcMatrix_N_x vm qs" "calcMatrix_N_u vm ps = calcMatrix_N_u vm qs"
    by (simp_all add: size_t_of_length_def calcMatrix_N_x_def calcMatrix_N_u_def)
  then show ?thesis
    by (simp add: calcMatrix_def calcMatrix_loop_cong[OF assms])
qed

theorem calcMatrix_depends_on_delta_arc_length_only_witness:
  "map delta_arc_length
     [ReferencePoint_init \<lparr> curvature := 0.2, delta_arc_length := 1 \<rparr>,
      ReferencePoint_init \<lparr> curvature := - 0.1, alpha := 3 \<rparr>]
   = map delta_arc_length
     [ReferencePoint_init \<lparr> delta_arc_length := 1 \<rparr>, ReferencePoint_init \<lparr> curvature := 5 \<rparr>]
   \<and> calcMatrix \<lparr> wheelbase = 2.79, steer_limit = 0.7 \<rparr>
         [ReferencePoint_init \<lparr> curvature := 0.2, delta_arc_length := 1 \<rparr>,
          ReferencePoint_init \<lparr> curvature := - 0.1, alpha := 3 \<rparr>]
     = calcMatrix \<lparr> wheelbase = 2.79, steer_limit = 0.7 \<rparr>
         [ReferencePoint_init \<lparr> delta_arc_length := 1 \<rparr>, ReferencePoint_init \<lparr> curvature := 5 \<rparr>]"
  using calcMatrix_depends_on_delta_arc_length_only
    [of "[ReferencePoint_init \<lparr> curvature := 0.2, delta_arc_length := 1 \<rparr>,
          ReferencePoint_init \<lparr> curvature := - 0.1, alpha := 3 \<rparr>]"
        "[ReferencePoint_init \<lparr> delta_arc_length := 1 \<rparr>, ReferencePoint_init \<lparr> curvature := 5 \<rparr>]"
        "\<lparr> wheelbase = 2.79, steer_limit = 0.7 \<rparr>"]
  by (simp add: ReferencePoint_init_def)

section \<open>The empty list\<close>

lemma calcMatrix_start:
  assumes "ps \<noteq> []" "2 * length ps < 2 ^ 63"
  shows "calcMatrix vm ps =
           calcMatrix_loop vm ps 2 1 (length ps) 1
             \<lparr> mat_A = \<lparr> rows = 2 * length ps, cols = 2 * length ps, coeff = (\<lambda>i j. 0) \<rparr>,
               mat_B = \<lparr> rows = 2 * length ps, cols = length ps - 1, coeff = (\<lambda>i j. 0) \<rparr>,
               mat_W = \<lparr> rows = 2 * length ps, cols = 1, coeff = (\<lambda>i j. 0) \<rparr> \<rparr>"
proof -
  let ?N = "length ps"
  have N1: "1 \<le> ?N" using assms by (cases ps) auto
  note sz = calcMatrix_sizes[OF assms(1,2)]
  have ix: "Index_of_size_t (2 * ?N) = int (2 * ?N)" "Index_of_size_t (?N - 1) = int (?N - 1)"
    "Index_of_size_t 2 = 2"
    using assms by (simp_all add: Index_of_size_t_small)
  define A0 where "A0 = \<lparr> rows = 2 * ?N, cols = 2 * ?N, coeff = (\<lambda>i j. 0::real) \<rparr>"
  define B0 where "B0 = \<lparr> rows = 2 * ?N, cols = ?N - 1, coeff = (\<lambda>i j. 0::real) \<rparr>"
  define W where "W = \<lparr> rows = 2 * ?N, cols = 1, coeff = (\<lambda>i j. 0::real) \<rparr>"
  define Z where "Z = \<lparr> rows = 2, cols = 1, coeff = (\<lambda>i j. 0::real) \<rparr>"
  have z1: "MatrixXd_Zero (int (2 * ?N)) (int (2 * ?N)) = Inr A0"
    "MatrixXd_Zero (int (2 * ?N)) (int (?N - 1)) = Inr B0"
    "VectorXd_Zero (int (2 * ?N)) = Inr W" "VectorXd_Zero 2 = Inr Z"
    by (simp_all add: MatrixXd_Zero_def VectorXd_Zero_def A0_def B0_def W_def Z_def)
  have "set_segment W 0 2 Z = Inr (W \<lparr> coeff := (\<lambda>a b. if 0 \<le> a \<and> a < 0 + 2 \<and> 0 \<le> b \<and> b < 0 + 1
                                      then coeff Z (a - 0) (b - 0) else coeff W a b) \<rparr>)"
    unfolding set_segment_def using N1 by (intro set_block_Inr) (auto simp: W_def Z_def)
  also have "W \<lparr> coeff := (\<lambda>a b. if 0 \<le> a \<and> a < 0 + 2 \<and> 0 \<le> b \<and> b < 0 + 1
                                      then coeff Z (a - 0) (b - 0) else coeff W a b) \<rparr> = W"
    by (auto simp: W_def Z_def fun_eq_iff)
  finally have z2: "set_segment W 0 2 Z = Inr W" .
  show ?thesis
    unfolding calcMatrix_def Let_def
    by (simp only: sz ix z1 z2 bindE_Inr size_t_of_int_getDimX size_t_of_int_getDimU)
       (simp only: A0_def B0_def W_def)
qed

lemma calcMatrix_empty:
  "calcMatrix_N_u vm [] = 2 ^ 64 - 1" "calcMatrix vm [] = Inl NegativeSize"
proof -
  show u: "calcMatrix_N_u vm [] = 2 ^ 64 - 1"
    by (simp add: calcMatrix_N_u_def size_t_of_length_def size_t_sub_def size_t_mul_def
        SIZE_WIDTH_def)
  have x: "calcMatrix_N_x vm [] = 0"
    by (simp add: calcMatrix_N_x_def size_t_of_length_def size_t_mul_def)
  show "calcMatrix vm [] = Inl NegativeSize"
    unfolding calcMatrix_def Let_def u x
    by (simp add: Index_of_size_t_def SIZE_WIDTH_def MatrixXd_Zero_def)
qed

lemma calcMatrix_negative_steer_limit:
  assumes "ps \<noteq> []" "2 * length ps < 2 ^ 63" "steer_limit vm < 0"
  shows "(\<exists>m. calcMatrix vm ps = Inr m) \<or> calcMatrix vm ps = Inl ClampPrecondition"
proof (cases "length ps = 1")
  case True
  then show ?thesis
    by (subst calcMatrix_start[OF assms(1,2)], subst calcMatrix_loop.simps) simp
next
  case False
  then have N: "1 < length ps" using assms(1) by (cases ps) auto
  have sub: "size_t_sub (Suc 0) (Suc 0) = 0" by (simp add: size_t_sub_def SIZE_WIDTH_def)
  have "calculateStateEquationMatrix vm 0 ds = Inl ClampPrecondition" for ds
    using assms(3) by (simp add: calculateStateEquationMatrix_def std_clamp_def)
  then have "calcMatrix_body vm ps 2 1 1 m = Inl ClampPrecondition" for m
    using N assms(1) by (simp add: calcMatrix_body_def sub vector_at_def)
  then have "calcMatrix vm ps = Inl ClampPrecondition"
    using N by (subst calcMatrix_start[OF assms(1,2)], subst calcMatrix_loop.simps) simp
  then show ?thesis by simp
qed

text \<open>
  Claim C10.  \<^verbatim>\<open>calcMatrix\<close> is well defined only for a non-empty list.  For \<open>N \<ge> 1\<close>
  reference points (with \<open>2 N\<close> an Eigen index) the sizes are \<open>N\<^sub>x = 2 N\<close> and
  \<open>N\<^sub>u = N - 1\<close> without wrap-around, no allocation has a negative size, no block or
  segment leaves its matrix and no product or sum has mismatched sizes; with a
  non-negative steering limit the operation returns its three matrices.  For the empty
  list the unsigned subtraction \<open>N_ref - 1\<close> wraps, \<open>N\<^sub>u\<close> is \<open>2 ^ 64 - 1\<close>, which is \<open>- 1\<close> as
  an Eigen index, and the allocation of \<open>B\<close> is refused.
\<close>

theorem calcMatrix_defined_for_nonempty_only:
  "(ps \<noteq> [] \<and> 2 * length ps < 2 ^ 63 \<longrightarrow>
      calcMatrix_N_x vm ps = 2 * length ps \<and> calcMatrix_N_u vm ps = length ps - 1
      \<and> calcMatrix vm ps \<noteq> Inl NegativeSize \<and> calcMatrix vm ps \<noteq> Inl IndexOutOfRange
      \<and> calcMatrix vm ps \<noteq> Inl SizeMismatch
      \<and> (0 \<le> steer_limit vm \<longrightarrow> (\<exists>m. calcMatrix vm ps = Inr m)))
   \<and> calcMatrix_N_u vm [] = 2 ^ 64 - 1
   \<and> Index_of_size_t (calcMatrix_N_u vm []) = - 1
   \<and> calcMatrix vm [] = Inl NegativeSize"
proof -
  have "calcMatrix vm ps \<noteq> Inl NegativeSize \<and> calcMatrix vm ps \<noteq> Inl IndexOutOfRange
      \<and> calcMatrix vm ps \<noteq> Inl SizeMismatch
      \<and> (0 \<le> steer_limit vm \<longrightarrow> (\<exists>m. calcMatrix vm ps = Inr m))"
    if ps: "ps \<noteq> []" "2 * length ps < 2 ^ 63"
  proof (cases "0 \<le> steer_limit vm")
    case True
    from calcMatrix_characterisation[OF ps True] show ?thesis by auto
  next
    case False
    then have "steer_limit vm < 0" by simp
    from calcMatrix_negative_steer_limit[OF ps this] False show ?thesis by auto
  qed
  then show ?thesis
    by (simp add: calcMatrix_sizes calcMatrix_empty Index_of_size_t_def SIZE_WIDTH_def)
qed

theorem calcMatrix_defined_for_nonempty_only_witness:
  "[ReferencePoint_init, ReferencePoint_init] \<noteq> []
   \<and> 2 * length [ReferencePoint_init, ReferencePoint_init] < (2::nat) ^ 63
   \<and> 0 \<le> steer_limit \<lparr> wheelbase = 2.79, steer_limit = 0.7 \<rparr>
   \<and> calcMatrix_N_u \<lparr> wheelbase = 2.79, steer_limit = 0.7 \<rparr>
        [ReferencePoint_init, ReferencePoint_init] = 1
   \<and> (\<exists>m. calcMatrix \<lparr> wheelbase = 2.79, steer_limit = 0.7 \<rparr>
               [ReferencePoint_init, ReferencePoint_init] = Inr m)"
  using calcMatrix_defined_for_nonempty_only
          [of "[ReferencePoint_init, ReferencePoint_init]" "\<lparr> wheelbase = 2.79, steer_limit = 0.7 \<rparr>"]
  by simp

section \<open>Prediction against the step-by-step simulation\<close>

lemma B_rec_Suc_all:
  assumes "T i = (Ad, Bd, Wd)"
  shows "B_rec T (Suc i) a k =
           coeff Ad a 0 * B_rec T i 0 k + coeff Ad a 1 * B_rec T i 1 k
           + (if k = i then coeff Bd a 0 else 0)"
  using assms by (simp add: B_rec_upper)

lemma horizon_state_Suc:
  assumes T: "T i = (Ad, Bd, Wd)" and i: "i < n"
  shows "(\<Sum>k<n. B_rec T (Suc i) a k * u k) + W_rec T (Suc i) a =
           coeff Ad a 0 * ((\<Sum>k<n. B_rec T i 0 k * u k) + W_rec T i 0)
           + coeff Ad a 1 * ((\<Sum>k<n. B_rec T i 1 k * u k) + W_rec T i 1)
           + coeff Bd a 0 * u i + coeff Wd a 0"
proof -
  have eq: "B_rec T (Suc i) a k * u k =
              coeff Ad a 0 * (B_rec T i 0 k * u k) + coeff Ad a 1 * (B_rec T i 1 k * u k)
              + (if k = i then coeff Bd a 0 * u k else 0)" for k
    unfolding B_rec_Suc_all[of T i Ad Bd Wd a k, OF T] by (simp add: algebra_simps)
  have "(\<Sum>k<n. B_rec T (Suc i) a k * u k) =
        (\<Sum>k<n. coeff Ad a 0 * (B_rec T i 0 k * u k) + coeff Ad a 1 * (B_rec T i 1 k * u k)
                 + (if k = i then coeff Bd a 0 * u k else 0))"
    by (simp only: eq)
  also have "\<dots> = coeff Ad a 0 * (\<Sum>k<n. B_rec T i 0 k * u k)
                  + coeff Ad a 1 * (\<Sum>k<n. B_rec T i 1 k * u k)
                  + (\<Sum>k<n. if k = i then coeff Bd a 0 * u k else 0)"
    by (simp add: sum.distrib sum_distrib_left)
  also have "(\<Sum>k<n. if k = i then coeff Bd a 0 * u k else 0) = coeff Bd a 0 * u i"
    using i by (simp add: sum.delta)
  finally show ?thesis using T by (simp add: algebra_simps)
qed

lemma simulate_closed_form:
  assumes s: "0 \<le> steer_limit vm" and U: "rows U = n" "cols U = 1" and i: "i \<le> n"
  shows "simulate vm ps U i =
           Inr \<lparr> rows = 2, cols = 1,
                 coeff = (\<lambda>a b. if a < 2 \<and> b < 1
                            then (\<Sum>k<n. B_rec (step_matrices vm ps) i a k * coeff U k 0)
                                 + W_rec (step_matrices vm ps) i a
                            else 0) \<rparr>"
  using i
proof (induction i)
  case 0
  show ?case by (auto simp: VectorXd_Zero_def MatrixXd_Zero_def fun_eq_iff)
next
  case (Suc i)
  let ?T = "step_matrices vm ps"
  let ?x = "\<lambda>i a. (\<Sum>k<n. B_rec ?T i a k * coeff U k 0) + W_rec ?T i a"
  define X where "X = \<lparr> rows = 2, cols = 1,
                 coeff = (\<lambda>a b. if a < 2 \<and> b < (1::nat) then ?x i a else 0) \<rparr>"
  have ih: "simulate vm ps U i = Inr X"
    unfolding X_def using Suc by simp
  obtain Ad Bd Wd where T: "?T i = (Ad, Bd, Wd)"
    and calc: "calculateStateEquationMatrix vm 0 (delta_arc_length (ps ! i)) = Inr (Ad, Bd, Wd)"
    and dims: "rows Ad = 2" "cols Ad = 2" "rows Bd = 2" "cols Bd = 1" "rows Wd = 2" "cols Wd = 1"
    using s by (simp add: step_matrices_eq calculateStateEquationMatrix_curvature_0 of_rows_def)
  define u where "u = \<lparr> rows = 1, cols = 1,
     coeff = (\<lambda>a b. if a < 1 \<and> b < 1 then coeff U (i + a) (0 + b) else 0) \<rparr>"
  have e1: "segment U i 1 = Inr u"
    unfolding u_def segment_def using Suc.prems U by (intro block_Inr) auto
  define AX where "AX = \<lparr> rows = 2, cols = 1,
     coeff = (\<lambda>a b. if a < 2 \<and> b < 1 then (\<Sum>t<2. coeff Ad a t * coeff X t b) else 0) \<rparr>"
  have e2: "mat_mul Ad X = Inr AX"
    unfolding AX_def using dims by (simp add: mat_mul_def X_def cong: if_cong)
  define Bu where "Bu = \<lparr> rows = 2, cols = 1,
     coeff = (\<lambda>a b. if a < 2 \<and> b < 1 then (\<Sum>t<1. coeff Bd a t * coeff u t b) else 0) \<rparr>"
  have e3: "mat_mul Bd u = Inr Bu"
    unfolding Bu_def using dims by (simp add: mat_mul_def u_def cong: if_cong)
  define AXBu where "AXBu = \<lparr> rows = 2, cols = 1,
     coeff = (\<lambda>a b. if a < 2 \<and> b < 1 then coeff AX a b + coeff Bu a b else 0) \<rparr>"
  have e4: "mat_add AX Bu = Inr AXBu"
    unfolding AXBu_def by (simp add: mat_add_def AX_def Bu_def cong: if_cong)
  define R where "R = \<lparr> rows = 2, cols = 1,
     coeff = (\<lambda>a b. if a < 2 \<and> b < 1 then coeff AXBu a b + coeff Wd a b else 0) \<rparr>"
  have e5: "mat_add AXBu Wd = Inr R"
    unfolding R_def using dims by (simp add: mat_add_def AXBu_def cong: if_cong)
  have sim: "simulate vm ps U (Suc i) = Inr R"
    by (simp only: simulate.simps ih calc e1 e2 e3 e4 e5 bindE_Inr prod.case)
  have "coeff R a b = (if a < 2 \<and> b < 1 then ?x (Suc i) a else 0)" for a b
  proof (cases "a < 2 \<and> b < 1")
    case True
    then have b: "b = 0" by simp
    have "i < n" using Suc.prems by simp
    from horizon_state_Suc[where T = "?T" and i = i and u = "\<lambda>k. coeff U k 0" and a = a, OF T this] True
    show ?thesis
      by (simp add: R_def AXBu_def AX_def Bu_def X_def u_def sum_lessThan_2 b)
  next
    case False
    then show ?thesis by (auto simp: R_def)
  qed
  then have "R = \<lparr> rows = 2, cols = 1,
                 coeff = (\<lambda>a b. if a < 2 \<and> b < 1 then ?x (Suc i) a else 0) \<rparr>"
    by (simp add: R_def fun_eq_iff)
  with sim show ?case by simp
qed

text \<open>
  Claim C1.  For a non-empty list of \<open>N\<close> reference points (with \<open>2 N\<close> an Eigen index), a
  vehicle model with a non-negative steering limit and every input vector \<open>U\<close> of length
  \<open>N - 1\<close>, \<^verbatim>\<open>predict(calcMatrix(ref_points), U)\<close> is a vector \<open>X\<close> of length \<open>2 N\<close> whose
  \<open>i\<close>-th block of two rows is the state \<open>X[i]\<close> of the step-by-step simulation
  \<open>X[0] = 0\<close>, \<open>X[i] = A\<^sub>d X[i - 1] + B\<^sub>d u\<^sub>i\<^sub>-\<^sub>1 + W\<^sub>d\<close>, with the matrices of the vehicle
  model for reference point \<open>i - 1\<close> at curvature 0 and that point's \<open>delta_arc_length\<close>.
\<close>

theorem predict_equals_simulation:
  assumes "ps \<noteq> []" "2 * length ps < 2 ^ 63" "0 \<le> steer_limit vm"
    and "rows U = length ps - 1" "cols U = 1"
  shows "\<exists>m X. calcMatrix vm ps = Inr m \<and> predict m U = Inr X
           \<and> rows X = 2 * length ps \<and> cols X = 1
           \<and> (\<forall>i < length ps. segment X (2 * i) 2 = simulate vm ps U i)"
proof -
  from calcMatrix_characterisation[OF assms(1-3)] obtain m where m: "calcMatrix vm ps = Inr m"
    and inv: "calcMatrix_inv (step_matrices vm ps) (length ps) (length ps) m"
    by blast
  let ?T = "step_matrices vm ps" and ?N = "length ps"
  from inv have d: "rows (mat_B m) = 2 * ?N" "cols (mat_B m) = ?N - 1"
    "rows (mat_W m) = 2 * ?N" "cols (mat_W m) = 1"
    and iB: "\<And>j a c. a < 2 \<Longrightarrow>
        coeff (mat_B m) (2 * j + a) c = (if j < ?N then B_rec ?T j a c else 0)"
    and iW: "\<And>j a c. a < 2 \<Longrightarrow>
        coeff (mat_W m) (2 * j + a) c = (if j < ?N \<and> c = 0 then W_rec ?T j a else 0)"
    by (simp_all add: calcMatrix_inv_def)
  define BU where "BU = \<lparr> rows = 2 * ?N, cols = 1,
     coeff = (\<lambda>i j. if i < 2 * ?N \<and> j < 1
                then (\<Sum>t<?N - 1. coeff (mat_B m) i t * coeff U t j) else 0) \<rparr>"
  have p1: "mat_mul (mat_B m) U = Inr BU"
    unfolding BU_def using d assms(4,5) by (simp add: mat_mul_def cong: if_cong)
  define X where "X = \<lparr> rows = 2 * ?N, cols = 1,
     coeff = (\<lambda>i j. if i < 2 * ?N \<and> j < 1 then coeff BU i j + coeff (mat_W m) i j else 0) \<rparr>"
  have p2: "mat_add BU (mat_W m) = Inr X"
    unfolding X_def using d by (simp add: mat_add_def BU_def cong: if_cong)
  have p: "predict m U = Inr X"
    by (simp only: predict_def p1 p2 bindE_Inr)
  have seg: "segment X (2 * i) 2 = simulate vm ps U i" if i: "i < ?N" for i
  proof -
    have "segment X (2 * i) 2 = Inr \<lparr> rows = 2, cols = 1,
       coeff = (\<lambda>a b. if a < 2 \<and> b < 1 then coeff X (2 * i + a) (0 + b) else 0) \<rparr>"
      unfolding segment_def using i by (intro block_Inr) (simp_all add: X_def)
    moreover have "(if a < 2 \<and> b < 1 then coeff X (2 * i + a) (0 + b) else 0) =
                   (if a < 2 \<and> b < 1
                            then (\<Sum>k<?N - 1. B_rec ?T i a k * coeff U k 0) + W_rec ?T i a
                            else 0)" for a b :: nat
    proof (cases "a < 2 \<and> b < 1")
      case True
      then have b: "b = 0" and a: "a < 2" by simp_all
      have "2 * i + a < 2 * ?N" using a i by simp
      then show ?thesis using True iB[OF a, of i] iW[OF a, of i 0] i
        by (simp add: X_def BU_def b)
    next
      case False
      then show ?thesis by auto
    qed
    ultimately show ?thesis
      using simulate_closed_form[OF assms(3,4,5), of i ps] i by simp
  qed
  from m p seg show ?thesis by (auto simp: X_def)
qed

theorem predict_equals_simulation_witness:
  "[ReferencePoint_init \<lparr> delta_arc_length := 1 \<rparr>, ReferencePoint_init] \<noteq> []
   \<and> 2 * length [ReferencePoint_init \<lparr> delta_arc_length := 1 \<rparr>, ReferencePoint_init] < (2::nat) ^ 63
   \<and> 0 \<le> steer_limit \<lparr> wheelbase = 2, steer_limit = 0.7 \<rparr>
   \<and> rows (of_rows [[0.1]])
        = length [ReferencePoint_init \<lparr> delta_arc_length := 1 \<rparr>, ReferencePoint_init] - 1
   \<and> cols (of_rows [[0.1]]) = 1
   \<and> (\<exists>m X. calcMatrix \<lparr> wheelbase = 2, steer_limit = 0.7 \<rparr>
                 [ReferencePoint_init \<lparr> delta_arc_length := 1 \<rparr>, ReferencePoint_init] = Inr m
             \<and> predict m (of_rows [[0.1]]) = Inr X
             \<and> segment X 2 2
                 = simulate \<lparr> wheelbase = 2, steer_limit = 0.7 \<rparr>
                     [ReferencePoint_init \<lparr> delta_arc_length := 1 \<rparr>, ReferencePoint_init]
                     (of_rows [[0.1]]) 1)"
  using predict_equals_simulation
          [of "[ReferencePoint_init \<lparr> delta_arc_length := 1 \<rparr>, ReferencePoint_init]"
              "\<lparr> wheelbase = 2, steer_limit = 0.7 \<rparr>" "of_rows [[0.1]]"]
  by (auto simp: of_rows_def)

section \<open>The binary search of findSegment\<close>




section \<open>The fit\<close>

lemma length_resize [simp]: "length (resize n v) = n"
  by (simp add: resize_def)

lemma back_substitution_spec:
  assumes "back_substitution y h mu z k (b, c, d) = (b', c', d')"
    and "k < length c" "length b = length c" "length d = length c"
  shows "length b' = length b \<and> length c' = length c \<and> length d' = length d
         \<and> (\<forall>j\<ge>k. b' ! j = b ! j \<and> c' ! j = c ! j \<and> d' ! j = d ! j)
         \<and> (\<forall>i<k. c' ! i = z ! i - mu ! i * c' ! (i + 1)
                  \<and> b' ! i = (y ! (i + 1) - y ! i) / h ! i - h ! i * (c' ! (i + 1) + 2 * c' ! i) / 3
                  \<and> d' ! i = (c' ! (i + 1) - c' ! i) / (3 * h ! i))"
  using assms
proof (induction k arbitrary: b c d)
  case 0
  then show ?case by simp
next
  case (Suc k)
  define c1 where "c1 = c[k := z ! k - mu ! k * c ! (k + 1)]"
  define b1 where "b1 = b[k := (y ! (k + 1) - y ! k) / h ! k - h ! k * (c1 ! (k + 1) + 2 * c1 ! k) / 3]"
  define d1 where "d1 = d[k := (c1 ! (k + 1) - c1 ! k) / (3 * h ! k)]"
  have rec: "back_substitution y h mu z k (b1, c1, d1) = (b', c', d')"
    using Suc.prems(1) by (simp add: Let_def c1_def b1_def d1_def)
  have len: "k < length c1" "length b1 = length c1" "length d1 = length c1"
    using Suc.prems by (simp_all add: c1_def b1_def d1_def)
  note IH = Suc.IH[OF rec len]
  have keep: "b' ! j = b1 ! j" "c' ! j = c1 ! j" "d' ! j = d1 ! j" if "k \<le> j" for j
    using IH that by simp_all
  have k: "k < length c" "k < length b" "k < length d" using Suc.prems by simp_all
  have ck: "c' ! k = z ! k - mu ! k * c' ! (k + 1)"
    using keep(2)[of k] keep(2)[of "k + 1"] k by (simp add: c1_def)
  have bk: "b' ! k = (y ! (k + 1) - y ! k) / h ! k - h ! k * (c' ! (k + 1) + 2 * c' ! k) / 3"
    using keep(1)[of k] keep(2)[of k] keep(2)[of "k + 1"] k by (simp add: b1_def)
  have dk: "d' ! k = (c' ! (k + 1) - c' ! k) / (3 * h ! k)"
    using keep(3)[of k] keep(2)[of k] keep(2)[of "k + 1"] k by (simp add: d1_def)
  have lens: "length b' = length b" "length c' = length c" "length d' = length d"
    using IH by (simp_all add: c1_def b1_def d1_def)
  have above: "b' ! j = b ! j \<and> c' ! j = c ! j \<and> d' ! j = d ! j" if "Suc k \<le> j" for j
    using keep[of j] that by (simp add: c1_def b1_def d1_def)
  have below: "c' ! i = z ! i - mu ! i * c' ! (i + 1)
                  \<and> b' ! i = (y ! (i + 1) - y ! i) / h ! i - h ! i * (c' ! (i + 1) + 2 * c' ! i) / 3
                  \<and> d' ! i = (c' ! (i + 1) - c' ! i) / (3 * h ! i)" if "i < Suc k" for i
  proof (cases "i = k")
    case True
    then show ?thesis using ck bk dk by simp
  next
    case False
    then have "i < k" using that by simp
    then show ?thesis using IH by blast
  qed
  from lens above below show ?case by blast
qed



lemma calcSplineCoefficients_two:
  assumes "length x = 2"
  shows "calcSplineCoefficients s x y =
           s \<lparr> m_x := x, m_y := y, m_a := y,
               m_b := (resize 2 (m_b s))[0 := (y ! 1 - y ! 0) / (x ! 1 - x ! 0)],
               m_c := (resize 2 (m_c s))[0 := 0],
               m_d := (resize 2 (m_d s))[0 := 0] \<rparr>"
  using assms by (simp add: calcSplineCoefficients_def)


lemma calcSplineCoefficients_ge3:
  assumes "3 \<le> length x"
  shows "\<exists>l1 mu z1 b c d.
           thomas_forward x (spline_h x) (spline_alpha y (spline_h x) (length x)) (length x) 1
             ((replicate (length x) 0)[0 := 1], (replicate (length x) 0)[0 := 0],
              (replicate (length x) 0)[0 := 0]) = (l1, mu, z1)
           \<and> back_substitution y (spline_h x) mu (z1[length x - 1 := 0]) (length x - 1)
               (resize (length x) (m_b s), (resize (length x) (m_c s))[length x - 1 := 0],
                resize (length x) (m_d s)) = (b, c, d)
           \<and> calcSplineCoefficients s x y =
               s \<lparr> m_x := x, m_y := y, m_a := y, m_b := b, m_c := c, m_d := d \<rparr>"
proof -
  let ?n = "length x"
  obtain l1 mu z1 where tf: "thomas_forward x (spline_h x) (spline_alpha y (spline_h x) ?n) ?n 1
      ((replicate ?n 0)[0 := 1], (replicate ?n 0)[0 := 0], (replicate ?n 0)[0 := 0]) = (l1, mu, z1)"
    using prod_cases3 by blast
  obtain b c d where bs: "back_substitution y (spline_h x) mu (z1[?n - 1 := 0]) (?n - 1)
               (resize ?n (m_b s), (resize ?n (m_c s))[?n - 1 := 0], resize ?n (m_d s)) = (b, c, d)"
    using prod_cases3 by blast
  have n: "\<not> length x < 2" "length x \<noteq> 2" using assms by simp_all
  have "calcSplineCoefficients s x y = s \<lparr> m_x := x, m_y := y, m_a := y, m_b := b, m_c := c, m_d := d \<rparr>"
    unfolding calcSplineCoefficients_def Let_def
    by (simp add: n tf bs del: replicate.simps One_nat_def)
  with tf bs show ?thesis by blast
qed

lemma spline_h_nth: "i < length x - 1 \<Longrightarrow> spline_h x ! i = x ! (i + 1) - x ! i"
  by (simp add: spline_h_def)

lemma fit_relations:
  fixes s :: CubicSpline and x y :: "real list"
  assumes "3 \<le> length x"
  defines "s' \<equiv> calcSplineCoefficients s x y"
  shows "m_x s' = x \<and> m_y s' = y \<and> m_a s' = y
         \<and> length (m_b s') = length x \<and> length (m_c s') = length x \<and> length (m_d s') = length x
         \<and> m_c s' ! (length x - 1) = 0
         \<and> (\<forall>i<length x - 1.
               m_b s' ! i = (y ! (i + 1) - y ! i) / (x ! (i + 1) - x ! i)
                            - (x ! (i + 1) - x ! i) * (m_c s' ! (i + 1) + 2 * m_c s' ! i) / 3
             \<and> m_d s' ! i = (m_c s' ! (i + 1) - m_c s' ! i) / (3 * (x ! (i + 1) - x ! i)))"
proof -
  let ?n = "length x"
  from calcSplineCoefficients_ge3[OF assms(1), of y s]
  obtain l1 mu z1 b c d where
    bs: "back_substitution y (spline_h x) mu (z1[?n - 1 := 0]) (?n - 1)
               (resize ?n (m_b s), (resize ?n (m_c s))[?n - 1 := 0], resize ?n (m_d s)) = (b, c, d)"
    and fit: "s' = s \<lparr> m_x := x, m_y := y, m_a := y, m_b := b, m_c := c, m_d := d \<rparr>"
    unfolding s'_def by blast
  have "?n - 1 < length ((resize ?n (m_c s))[?n - 1 := 0])" using assms(1) by simp
  from back_substitution_spec[OF bs this]
  have len: "length b = ?n" "length c = ?n" "length d = ?n"
    and keep: "\<forall>j\<ge>?n - 1. c ! j = (resize ?n (m_c s))[?n - 1 := 0] ! j"
    and rel: "\<forall>i<?n - 1.
                  b ! i = (y ! (i + 1) - y ! i) / spline_h x ! i
                          - spline_h x ! i * (c ! (i + 1) + 2 * c ! i) / 3
                  \<and> d ! i = (c ! (i + 1) - c ! i) / (3 * spline_h x ! i)"
    by simp_all
  have "c ! (?n - 1) = 0" using keep assms(1) by simp
  with len rel show ?thesis by (simp add: fit spline_h_nth)
qed






section \<open>The system solved by the fit\<close>









lemma spline_segment_has_derivative:
  "(spline_segment s i has_real_derivative spline_segment' s i t) (at t)"
  unfolding spline_segment_def [abs_def] spline_segment'_def
  by (auto intro!: derivative_eq_intros simp: power2_eq_square)

lemma spline_segment'_has_derivative:
  "(spline_segment' s i has_real_derivative spline_segment'' s i t) (at t)"
  unfolding spline_segment'_def [abs_def] spline_segment''_def
  by (auto intro!: derivative_eq_intros)



section \<open>The spline at the sample abscissas\<close>

lemma fit_samples:
  assumes "2 \<le> length x"
  shows "m_x (calcSplineCoefficients s x y) = x"
    and "m_y (calcSplineCoefficients s x y) = y"
    and "m_a (calcSplineCoefficients s x y) = y"
    and "length (m_b (calcSplineCoefficients s x y)) = length x"
proof -
  consider "length x = 2" | "3 \<le> length x" using assms by linarith
  then have "m_x (calcSplineCoefficients s x y) = x \<and> m_y (calcSplineCoefficients s x y) = y
             \<and> m_a (calcSplineCoefficients s x y) = y
             \<and> length (m_b (calcSplineCoefficients s x y)) = length x"
  proof cases
    case 1
    then show ?thesis by (simp add: calcSplineCoefficients_two)
  next
    case 2
    from fit_relations[OF 2, of s y] show ?thesis by simp
  qed
  then show "m_x (calcSplineCoefficients s x y) = x"
    and "m_y (calcSplineCoefficients s x y) = y"
    and "m_a (calcSplineCoefficients s x y) = y"
    and "length (m_b (calcSplineCoefficients s x y)) = length x"
    by simp_all
qed




lemma cubic_has_derivative:
  "(cubic c0 c1 c2 c3 has_real_derivative cubic' c0 c1 c2 c3 t) (at t)"
  unfolding cubic_def [abs_def] cubic'_def
  by (auto intro!: derivative_eq_intros simp: power2_eq_square)

lemma cubic'_has_derivative:
  "(cubic' c0 c1 c2 c3 has_real_derivative cubic'' c0 c1 c2 c3 t) (at t)"
  unfolding cubic'_def [abs_def] cubic''_def
  by (auto intro!: derivative_eq_intros)










lemma fit_parabola:
  "calcSplineCoefficients CubicSpline_init [0, 1, 2] [0, 1, 4] =
     \<lparr> m_x = [0, 1, 2], m_y = [0, 1, 4], m_a = [0, 1, 4],
       m_b = [1 / 2, 2, 0], m_c = [0, 3 / 2, 0], m_d = [1 / 2, - (1 / 2), 0] \<rparr>"
  by code_simp




section \<open>The slope to the right of the samples\<close>

text \<open>
  Outside the samples the three queries clamp: to the left of the first abscissa the
  value is \<open>y\<^sub>0\<close>, the slope is \<open>b\<^sub>0\<close> (the slope of the first segment at \<open>x\<^sub>0\<close>) and the
  second derivative is 0; to the right of the last abscissa the value is \<open>y\<^sub>n\<^sub>-\<^sub>1\<close> and the
  second derivative is 0.
\<close>

lemma clamped_queries:
  assumes sorted: "sorted_wrt (<) x" and n: "2 \<le> length x" and ly: "length y = length x"
  shows "q \<le> x ! 0 \<longrightarrow>
           interpolate (calcSplineCoefficients s x y) q = y ! 0
           \<and> derivative (calcSplineCoefficients s x y) q = m_b (calcSplineCoefficients s x y) ! 0
           \<and> secondDerivative (calcSplineCoefficients s x y) q = 0"
    and "x ! (length x - 1) \<le> q \<longrightarrow>
           interpolate (calcSplineCoefficients s x y) q = y ! (length x - 1)
           \<and> secondDerivative (calcSplineCoefficients s x y) q = 0"
proof -
  let ?s = "calcSplineCoefficients s x y" and ?n = "length x"
  note f = fit_samples[OF n, of s y]
  have ne: "x \<noteq> []" "y \<noteq> []" using n ly by auto
  have hd: "hd x = x ! 0" "hd y = y ! 0" using ne by (simp_all add: hd_conv_nth)
  have la: "last x = x ! (?n - 1)" "last y = y ! (?n - 1)"
    using ne ly by (simp_all add: last_conv_nth)
  have hdb: "hd (m_b ?s) = m_b ?s ! 0"
    using f(4) n by (intro hd_conv_nth) auto
  have lt: "x ! 0 < x ! (?n - 1)"
    using sorted by (rule sorted_wrt_nth_less) (use n in simp_all)
  show "q \<le> x ! 0 \<longrightarrow>
           interpolate ?s q = y ! 0 \<and> derivative ?s q = m_b ?s ! 0 \<and> secondDerivative ?s q = 0"
    using ne by (simp add: interpolate_def derivative_def secondDerivative_def f hd hdb)
  show "x ! (?n - 1) \<le> q \<longrightarrow>
           interpolate ?s q = y ! (?n - 1) \<and> secondDerivative ?s q = 0"
    using ne lt by (auto simp: interpolate_def secondDerivative_def f hd la)
qed

lemma fit_two_points:
  "calcSplineCoefficients CubicSpline_init [0, 1] [0, 1] =
     \<lparr> m_x = [0, 1], m_y = [0, 1], m_a = [0, 1], m_b = [1, 0], m_c = [0, 0], m_d = [0, 0] \<rparr>"
  by code_simp

lemma findSegment_two_points:
  "findSegment \<lparr> m_x = [0, 1], m_y = [0, 1], m_a = [0, 1], m_b = [1, 0], m_c = [0, 0],
                 m_d = [0, 0] \<rparr> (1 / 2) = 0"
  by code_simp

text \<open>
  Claim C5, on the code.  To the right of the samples \<^verbatim>\<open>derivative\<close> returns
  \<^verbatim>\<open>b_.back()\<close>, the coefficient \<open>b\<^sub>n\<^sub>-\<^sub>1\<close>, which \<^verbatim>\<open>calcSplineCoefficients\<close> never assigns
  (the back substitution stops at \<open>n - 2\<close>): on a fresh object it is the 0.0 of
  \<^verbatim>\<open>resize\<close>.  For the line through \<open>(0, 0)\<close> and \<open>(1, 1)\<close> the slope is 1 on the segment
  and at the first abscissa, yet \<^verbatim>\<open>derivative\<close> returns 0 at the last abscissa and beyond;
  for the parabola samples the last segment ends with slope \<open>7 / 2\<close> and \<^verbatim>\<open>derivative\<close>
  returns 0 there.
\<close>

theorem derivative_right_of_last_sample:
  "derivative (calcSplineCoefficients CubicSpline_init [0, 1] [0, 1]) 1 = 0
   \<and> derivative (calcSplineCoefficients CubicSpline_init [0, 1] [0, 1]) 2 = 0
   \<and> derivative (calcSplineCoefficients CubicSpline_init [0, 1] [0, 1]) (1 / 2) = 1
   \<and> derivative (calcSplineCoefficients CubicSpline_init [0, 1] [0, 1]) 0 = 1
   \<and> derivative (calcSplineCoefficients CubicSpline_init [0, 1, 2] [0, 1, 4]) 2 = 0
   \<and> (let s = calcSplineCoefficients CubicSpline_init [0, 1, 2] [0, 1, 4]
      in m_b s ! 1 + 2 * m_c s ! 1 * (2 - 1) + 3 * m_d s ! 1 * (2 - 1) * (2 - 1) = 7 / 2)"
  by (simp add: fit_two_points fit_parabola derivative_def findSegment_two_points Let_def)

lemma unset_last_slope:
  assumes "2 \<le> length x"
  shows "last (m_b (calcSplineCoefficients CubicSpline_init x y)) = 0"
proof -
  let ?n = "length x"
  consider "?n = 2" | "3 \<le> ?n" using assms by linarith
  then show ?thesis
  proof cases
    case 1
    then show ?thesis
      by (simp add: calcSplineCoefficients_two CubicSpline_init_def resize_def numeral_2_eq_2)
  next
    case 2
    from calcSplineCoefficients_ge3[OF 2, of y CubicSpline_init]
    obtain l1 mu z1 b c d where
      bs: "back_substitution y (spline_h x) mu (z1[?n - 1 := 0]) (?n - 1)
               (resize ?n (m_b CubicSpline_init), (resize ?n (m_c CubicSpline_init))[?n - 1 := 0],
                resize ?n (m_d CubicSpline_init)) = (b, c, d)"
      and fit: "calcSplineCoefficients CubicSpline_init x y
                = CubicSpline_init \<lparr> m_x := x, m_y := y, m_a := y, m_b := b, m_c := c, m_d := d \<rparr>"
      by blast
    have "?n - 1 < length ((resize ?n (m_c CubicSpline_init))[?n - 1 := 0])" using 2 by simp
    from back_substitution_spec[OF bs this]
    have len: "length b = ?n" and keep: "\<forall>j\<ge>?n - 1. b ! j = resize ?n (m_b CubicSpline_init) ! j"
      by simp_all
    have "b ! (?n - 1) = 0"
      using keep 2 by (simp add: resize_def CubicSpline_init_def)
    moreover have "b \<noteq> []" using len 2 by auto
    ultimately show ?thesis using len by (simp add: fit last_conv_nth)
  qed
qed

lemma derivative_right_of_samples_fresh:
  assumes "sorted_wrt (<) x" "2 \<le> length x" "last x \<le> q"
  shows "derivative (calcSplineCoefficients CubicSpline_init x y) q = 0"
proof -
  have ne: "x \<noteq> []" using assms(2) by auto
  have "x ! 0 < x ! (length x - 1)"
    using assms(1) by (rule sorted_wrt_nth_less) (use assms(2) in simp_all)
  then have "hd x < last x" using ne by (simp add: hd_conv_nth last_conv_nth)
  then have "\<not> q \<le> hd x" using assms(3) by simp
  then show ?thesis
    using ne assms(3) by (simp add: derivative_def fit_samples[OF assms(2)] unset_last_slope[OF assms(2)])
qed

section \<open>Inputs that are not strictly increasing\<close>





end
